theory Spec2Isabelle
  imports Complex_Main
begin

section \<open>ECMAScript values used by the storefront\<close>

subsection \<open>Numbers\<close>

text \<open>
  A JavaScript number is an IEEE-754 double. The model keeps the three special values
  and writes a finite double as \<open>Fin r\<close>, where \<open>r\<close> is the real number the double
  denotes; a real that no double denotes does not occur as a number of the program.
  The two zeros are one value \<open>Fin 0\<close>: the code below only compares numbers, tests
  them for truth and adds or multiplies them, and none of that tells \<open>-0\<close> from
  \<open>+0\<close>.
\<close>

datatype number = NaN | NegInf | PosInf | Fin real

text \<open>
  Rounding a real to the nearest integer, a tie to the even one.
\<close>

definition round_half_even :: "real \<Rightarrow> int" where
  "round_half_even t =
     (if t - of_int \<lfloor>t\<rfloor> < 1 / 2 then \<lfloor>t\<rfloor>
      else if 1 / 2 < t - of_int \<lfloor>t\<rfloor> then \<lfloor>t\<rfloor> + 1
      else if even \<lfloor>t\<rfloor> then \<lfloor>t\<rfloor> else \<lfloor>t\<rfloor> + 1)"

text \<open>
  The greatest exponent \<open>e\<close> between \<open>lo\<close> and \<open>hi\<close> with \<open>2^e \<le> a\<close>, and
  \<open>lo\<close> when there is none: a binary search.
\<close>

function binade :: "int \<Rightarrow> int \<Rightarrow> real \<Rightarrow> int" where
  "binade lo hi a =
     (if hi \<le> lo then lo
      else if 2 powi ((lo + hi + 1) div 2) \<le> a then binade ((lo + hi + 1) div 2) hi a
      else binade lo ((lo + hi + 1) div 2 - 1) a)"
  by pat_completeness auto
termination
  by (relation "measure (\<lambda>(lo, hi, a). nat (hi - lo))") auto

declare binade.simps [simp del]

text \<open>
  The distance between neighbouring doubles at the magnitude \<open>a\<close>: a double has 53
  bits of mantissa, and its exponent is at least \<open>-1022\<close> (below \<open>2^-1022\<close> the
  doubles are the multiples of \<open>2^-1074\<close>) and at most \<open>1023\<close>.
\<close>

definition quantum :: "real \<Rightarrow> real" where
  "quantum a = 2 powi (binade (- 1022) 1023 a - 52)"

text \<open>
  The double nearest to a real, as every arithmetic operation and every conversion of
  a numeric literal rounds its exact result: the magnitude is rounded to a multiple of
  its quantum, a tie to the even multiple, and a magnitude that reaches \<open>2^1024\<close> this
  way is an infinity.
\<close>

definition to_double :: "real \<Rightarrow> number" where
  "to_double r =
     (if 2 ^ 1024 \<le> of_int (round_half_even (\<bar>r\<bar> / quantum \<bar>r\<bar>)) * quantum \<bar>r\<bar>
      then (if r < 0 then NegInf else PosInf)
      else Fin (if r < 0 then - (of_int (round_half_even (\<bar>r\<bar> / quantum \<bar>r\<bar>)) * quantum \<bar>r\<bar>)
                else of_int (round_half_even (\<bar>r\<bar> / quantum \<bar>r\<bar>)) * quantum \<bar>r\<bar>))"

text \<open>The numbers of the program: the special values and the reals a double denotes.\<close>

definition is_double :: "number \<Rightarrow> bool" where
  "is_double n = (case n of Fin r \<Rightarrow> to_double r = Fin r | _ \<Rightarrow> True)"

text \<open>\<^verbatim>\<open>Number.isFinite(n)\<close>\<close>

fun isFinite :: "number \<Rightarrow> bool" where
  "isFinite (Fin r) = True"
| "isFinite _ = False"

text \<open>\<^verbatim>\<open>a > b\<close> on numbers: false as soon as one side is NaN.\<close>

fun num_gt :: "number \<Rightarrow> number \<Rightarrow> bool" where
  "num_gt NaN _ = False"
| "num_gt _ NaN = False"
| "num_gt (Fin a) (Fin b) = (b < a)"
| "num_gt PosInf b = (b \<noteq> PosInf)"
| "num_gt a NegInf = (a \<noteq> NegInf)"
| "num_gt _ _ = False"

text \<open>\<^verbatim>\<open>a <= b\<close> on numbers: false as soon as one side is NaN.\<close>

definition num_le :: "number \<Rightarrow> number \<Rightarrow> bool" where
  "num_le a b = (a \<noteq> NaN \<and> b \<noteq> NaN \<and> \<not> num_gt a b)"

text \<open>\<^verbatim>\<open>Number.isInteger(n)\<close>\<close>

definition is_integer :: "number \<Rightarrow> bool" where
  "is_integer n = (case n of Fin r \<Rightarrow> of_int \<lfloor>r\<rfloor> = r | _ \<Rightarrow> False)"

text \<open>Truthiness of a number: \<open>0\<close> and \<open>NaN\<close> are falsy.\<close>

fun num_truthy :: "number \<Rightarrow> bool" where
  "num_truthy NaN = False"
| "num_truthy (Fin r) = (r \<noteq> 0)"
| "num_truthy _ = True"

text \<open>\<^verbatim>\<open>Math.max(a, b)\<close>\<close>

fun Math_max :: "number \<Rightarrow> number \<Rightarrow> number" where
  "Math_max NaN _ = NaN"
| "Math_max _ NaN = NaN"
| "Math_max a b = (if num_gt b a then b else a)"

text \<open>\<^verbatim>\<open>a + b\<close> on numbers.\<close>

fun num_add :: "number \<Rightarrow> number \<Rightarrow> number" where
  "num_add NaN _ = NaN"
| "num_add _ NaN = NaN"
| "num_add (Fin a) (Fin b) = to_double (a + b)"
| "num_add PosInf b = (if b = NegInf then NaN else PosInf)"
| "num_add NegInf b = (if b = PosInf then NaN else NegInf)"
| "num_add a PosInf = PosInf"
| "num_add a NegInf = NegInf"

fun num_negative :: "number \<Rightarrow> bool" where
  "num_negative NegInf = True"
| "num_negative (Fin r) = (r < 0)"
| "num_negative _ = False"

text \<open>\<^verbatim>\<open>a * b\<close> on numbers: zero times an infinity is NaN.\<close>

fun num_mul :: "number \<Rightarrow> number \<Rightarrow> number" where
  "num_mul NaN _ = NaN"
| "num_mul _ NaN = NaN"
| "num_mul (Fin a) (Fin b) = to_double (a * b)"
| "num_mul a b =
     (if a = Fin 0 \<or> b = Fin 0 then NaN
      else if num_negative a = num_negative b then PosInf
      else NegInf)"

subsection \<open>Parsed JSON and the text of the cart cookie\<close>

text \<open>
  The value \<^verbatim>\<open>JSON.parse\<close> builds: an object holds its own properties in order,
  each key once (of a key the text repeats, \<^verbatim>\<open>JSON.parse\<close> keeps the last value);
  numbers are doubles (a literal beyond the double range parses to an infinity).
\<close>

datatype json =
    JNull
  | JBool bool
  | JNum number
  | JStr string
  | JArr "json list"
  | JObj "(string \<times> json) list"

text \<open>
  The text held by the cart cookie is represented by what \<^verbatim>\<open>JSON.parse\<close> makes of it:
  \<open>JsonText v\<close> is a text that parses to \<open>v\<close>, \<open>NotJson s\<close> is the text \<open>s\<close>, which
  \<^verbatim>\<open>JSON.parse\<close> rejects with a SyntaxError (the empty text is one of them). The
  concrete syntax of JSON, its string escapes and the printing of numbers are
  therefore outside the model; \<^verbatim>\<open>JSON.stringify\<close> of a value is the text that parses
  back to the tree \<^verbatim>\<open>JSON.stringify\<close> writes (see \<open>JSON_stringify\<close> below).
\<close>

datatype cookie_text = NotJson string | JsonText json

datatype exception = SyntaxError | TypeError

fun JSON_parse :: "cookie_text \<Rightarrow> exception + json" where
  "JSON_parse (NotJson s) = Inl SyntaxError"
| "JSON_parse (JsonText v) = Inr v"

text \<open>
  \<^verbatim>\<open>item.productId\<close> and \<^verbatim>\<open>item.quantity\<close> on a parsed value. Reading a property of
  \<open>null\<close> throws a TypeError; an object answers with its own property (\<open>None\<close> is
  \<open>undefined\<close>); booleans, numbers, strings and arrays have neither property.
\<close>

fun get_property :: "json \<Rightarrow> string \<Rightarrow> exception + json option" where
  "get_property JNull k = Inl TypeError"
| "get_property (JObj kvs) k = Inr (map_of kvs k)"
| "get_property _ k = Inr None"

text \<open>
  \<^verbatim>\<open>Number(v)\<close>. On \<open>undefined\<close>, \<open>null\<close>, a boolean or a number the result is fixed
  by the language. On a string, an array or an object the result comes from
  ECMAScript's ToPrimitive and StringToNumber (and, for numbers inside arrays, from
  the printing of doubles), which this development does not define: it is the
  parameter \<open>coerce\<close>, which answers \<open>None\<close> where the conversion throws a TypeError.
  Every theorem below holds for every \<open>coerce\<close>.
\<close>

type_synonym coercion = "json \<Rightarrow> number option"

fun Number_of :: "coercion \<Rightarrow> json option \<Rightarrow> exception + number" where
  "Number_of coerce None = Inr NaN"
| "Number_of coerce (Some JNull) = Inr (Fin 0)"
| "Number_of coerce (Some (JBool b)) = Inr (Fin (if b then 1 else 0))"
| "Number_of coerce (Some (JNum n)) = Inr n"
| "Number_of coerce (Some v) = (case coerce v of None \<Rightarrow> Inl TypeError | Some n \<Rightarrow> Inr n)"

text \<open>
  The coercion used in the closed examples, none of which coerces a string, an array
  or an object: it lets every such conversion throw.
\<close>

definition throwing :: coercion where
  "throwing v = None"

section \<open>Cart codec\<close>

record CartItem =
  productId :: string
  quantity :: number

text \<open>
  The callback of \<^verbatim>\<open>parsed.map\<close> in \<^verbatim>\<open>parseCartItems\<close>:
  \<^verbatim>\<open>productId: typeof item.productId === 'string' ? item.productId : ''\<close>,
  \<^verbatim>\<open>quantity: Number.isFinite(Number(item.quantity)) ? Number(item.quantity) : 0\<close>.
\<close>

definition sanitize :: "coercion \<Rightarrow> json \<Rightarrow> exception + CartItem" where
  "sanitize coerce item =
     (case get_property item ''productId'' of
        Inl e \<Rightarrow> Inl e
      | Inr pid \<Rightarrow>
          (case get_property item ''quantity'' of
             Inl e \<Rightarrow> Inl e
           | Inr q \<Rightarrow>
               (case Number_of coerce q of
                  Inl e \<Rightarrow> Inl e
                | Inr n \<Rightarrow>
                    Inr \<lparr>productId = (case pid of Some (JStr s) \<Rightarrow> s | _ \<Rightarrow> ''''),
                         quantity = (if isFinite n then n else Fin 0)\<rparr>)))"

text \<open>\<^verbatim>\<open>Array.prototype.map\<close> with a callback that may throw: the first throw ends it.\<close>

fun map_throwing :: "('a \<Rightarrow> exception + 'b) \<Rightarrow> 'a list \<Rightarrow> exception + 'b list" where
  "map_throwing f [] = Inr []"
| "map_throwing f (x # xs) =
     (case f x of
        Inl e \<Rightarrow> Inl e
      | Inr y \<Rightarrow> (case map_throwing f xs of Inl e \<Rightarrow> Inl e | Inr ys \<Rightarrow> Inr (y # ys)))"

text \<open>The callback of \<^verbatim>\<open>.filter\<close>: \<^verbatim>\<open>item.productId && item.quantity > 0\<close>.\<close>

definition keeps :: "CartItem \<Rightarrow> bool" where
  "keeps item = (productId item \<noteq> [] \<and> num_gt (quantity item) (Fin 0))"

text \<open>The body of the \<^verbatim>\<open>try\<close> block of \<^verbatim>\<open>parseCartItems\<close>.\<close>

definition parse_body :: "coercion \<Rightarrow> cookie_text \<Rightarrow> exception + CartItem list" where
  "parse_body coerce raw =
     (case JSON_parse raw of
        Inl e \<Rightarrow> Inl e
      | Inr parsed \<Rightarrow>
          (case parsed of
             JArr xs \<Rightarrow>
               (case map_throwing (sanitize coerce) xs of
                  Inl e \<Rightarrow> Inl e
                | Inr items \<Rightarrow> Inr (filter keeps items))
           | _ \<Rightarrow> Inr []))"

text \<open>
  \<^verbatim>\<open>parseCartItems\<close> from the cookie value on (\<open>None\<close> is \<open>undefined\<close>, the cookie is
  absent): \<^verbatim>\<open>if (!raw)\<close> gives the empty cart, and so does the \<^verbatim>\<open>catch\<close>.
\<close>

definition decode :: "coercion \<Rightarrow> cookie_text option \<Rightarrow> CartItem list" where
  "decode coerce raw =
     (case raw of
        None \<Rightarrow> []
      | Some t \<Rightarrow>
          if t = NotJson [] then []
          else (case parse_body coerce t of Inl e \<Rightarrow> [] | Inr items \<Rightarrow> items))"

text \<open>
  A request, as far as the cart reads it: the value of the cart cookie (the result of
  \<^verbatim>\<open>getCookieValue\<close>) and the cache \<^verbatim>\<open>__cartItems\<close>.
\<close>

record request =
  cart_cookie :: "cookie_text option"
  cartItems_cache :: "CartItem list option"

definition parseCartItems :: "coercion \<Rightarrow> request \<Rightarrow> CartItem list \<times> request" where
  "parseCartItems coerce req =
     (case cartItems_cache req of
        Some items \<Rightarrow> (items, req)
      | None \<Rightarrow>
          (let items = decode coerce (cart_cookie req)
           in (items, req\<lparr>cartItems_cache := Some items\<rparr>)))"

text \<open>
  \<^verbatim>\<open>JSON.stringify\<close> of an array of cart items: each item is written as an object with
  its two properties in the order the code creates them, and a quantity that is not
  finite is written as \<open>null\<close>.
\<close>

definition JSON_stringify :: "CartItem list \<Rightarrow> cookie_text" where
  "JSON_stringify items =
     JsonText (JArr (map (\<lambda>item.
        JObj [(''productId'', JStr (productId item)),
              (''quantity'', if isFinite (quantity item) then JNum (quantity item) else JNull)])
        items))"

definition positive :: "CartItem \<Rightarrow> bool" where
  "positive item = num_gt (quantity item) (Fin 0)"

text \<open>\<^verbatim>\<open>writeCartItems\<close>: the value the response stores in the cart cookie.\<close>

definition writeCartItems :: "CartItem list \<Rightarrow> cookie_text" where
  "writeCartItems items = JSON_stringify (filter positive items)"

section \<open>Catalog store\<close>

subsection \<open>Slug generator\<close>

text \<open>
  Strings are lists of 8-bit characters, read as the code units \<open>0..255\<close> of a
  JavaScript string; code units beyond that range are outside the model.
  \<^verbatim>\<open>toLowerCase\<close> maps \<open>A..Z\<close> and the upper-case letters \<open>0xC0..0xDE\<close> (but not the
  multiplication sign \<open>0xD7\<close>) to the character 32 places on.
\<close>

definition lower_char :: "char \<Rightarrow> char" where
  "lower_char c =
     (let n = (of_char c :: nat)
      in if (65 \<le> n \<and> n \<le> 90) \<or> (192 \<le> n \<and> n \<le> 222 \<and> n \<noteq> 215)
         then char_of (n + 32) else c)"

definition toLowerCase :: "string \<Rightarrow> string" where
  "toLowerCase s = map lower_char s"

text \<open>The character class \<^verbatim>\<open>[a-z0-9]\<close>.\<close>

definition alnum :: "char \<Rightarrow> bool" where
  "alnum c = (let n = (of_char c :: nat) in (97 \<le> n \<and> n \<le> 122) \<or> (48 \<le> n \<and> n \<le> 57))"

text \<open>\<^verbatim>\<open>.replace(/[^a-z0-9]+/g, '-')\<close>: every maximal run of other characters becomes one hyphen.\<close>

function replace_runs :: "string \<Rightarrow> string" where
  "replace_runs [] = []"
| "replace_runs (c # cs) =
     (if alnum c then c # replace_runs cs
      else CHR ''-'' # replace_runs (dropWhile (\<lambda>d. \<not> alnum d) cs))"
  by pat_completeness auto
termination
  by (relation "measure length") (auto simp: le_imp_less_Suc length_dropWhile_le)

text \<open>
  \<^verbatim>\<open>.replace(/(^-|-$)+/g, '')\<close>. The first alternative matches a hyphen only at the
  start of the string and the second only at its end, so the replacement removes one
  leading hyphen, if there is one, and one trailing hyphen, if one is left.
\<close>

definition strip_hyphens :: "string \<Rightarrow> string" where
  "strip_hyphens s =
     (let s1 = (case s of [] \<Rightarrow> [] | c # cs \<Rightarrow> if c = CHR ''-'' then cs else s)
      in if s1 \<noteq> [] \<and> last s1 = CHR ''-'' then butlast s1 else s1)"

definition slugify :: "string \<Rightarrow> string" where
  "slugify v = strip_hyphens (replace_runs (toLowerCase v))"

subsection \<open>Records and partial updates\<close>

text \<open>
  A stored field holds a value or \<open>undefined\<close> (\<open>None\<close>): the type of an update,
  \<^verbatim>\<open>Partial<Omit<T, 'id'>>\<close>, lets a key be present with the value \<open>undefined\<close>, and the
  object spread copies such a key like any other. In an update a key is absent, or
  present with a value or with \<open>undefined\<close>.
\<close>

datatype 'a field = Absent | Present "'a option"

text \<open>One key of \<^verbatim>\<open>{ ...stored, ...update }\<close>.\<close>

fun spread :: "'a option \<Rightarrow> 'a field \<Rightarrow> 'a option" where
  "spread old Absent = old"
| "spread old (Present v) = v"

text \<open>Reading a key of the update, as in \<^verbatim>\<open>update.name\<close>.\<close>

fun read :: "'a field \<Rightarrow> 'a option" where
  "read Absent = None"
| "read (Present v) = v"

text \<open>Truthiness of a string that may be \<open>undefined\<close>.\<close>

fun truthy :: "string option \<Rightarrow> bool" where
  "truthy None = False"
| "truthy (Some s) = (s \<noteq> [])"

record ProductMedia =
  media_id :: string
  url :: string
  altText :: string

record Product =
  product_id :: string
  product_name :: "string option"
  product_slug :: "string option"
  product_description :: "string option"
  product_price :: "number option"
  product_currency :: "string option"
  product_media :: "ProductMedia list option"
  product_additionalInfo :: "(string \<times> string) list option"
  product_categoryIds :: "string list option"
  product_customTemplate :: "string option"

record Category =
  category_id :: string
  category_name :: "string option"
  category_slug :: "string option"
  category_description :: "string option"
  category_parentId :: "string option"

record CustomPage =
  page_id :: string
  page_title :: "string option"
  page_slug :: "string option"
  page_content :: "string option"
  page_template :: "string option"

record PaymentGatewayConfig =
  provider :: string
  enabled :: bool
  publicKey :: "string option"
  secretKey :: "string option"
  metadata :: "(string \<times> string) list option"

record SiteSettings =
  headerHtml :: "string option"
  footerHtml :: "string option"
  paymentGateways :: "PaymentGatewayConfig list option"

record ProductUpdate =
  pu_name :: "string field"
  pu_slug :: "string field"
  pu_description :: "string field"
  pu_price :: "number field"
  pu_currency :: "string field"
  pu_media :: "ProductMedia list field"
  pu_additionalInfo :: "(string \<times> string) list field"
  pu_categoryIds :: "string list field"
  pu_customTemplate :: "string field"

record CategoryUpdate =
  cu_name :: "string field"
  cu_slug :: "string field"
  cu_description :: "string field"
  cu_parentId :: "string field"

record PageUpdate =
  gu_title :: "string field"
  gu_slug :: "string field"
  gu_content :: "string field"
  gu_template :: "string field"

record SettingsUpdate =
  su_headerHtml :: "string field"
  su_footerHtml :: "string field"
  su_paymentGateways :: "PaymentGatewayConfig list field"

subsection \<open>The JavaScript Map\<close>

text \<open>
  A \<^verbatim>\<open>Map\<close> keeps its entries in insertion order: an association list. \<^verbatim>\<open>set\<close> on a
  key that is present replaces the value where it stands, on a new key it appends.
\<close>

definition Map_get :: "('k \<times> 'v) list \<Rightarrow> 'k \<Rightarrow> 'v option" where
  "Map_get m k = map_of m k"

definition Map_set :: "'k \<Rightarrow> 'v \<Rightarrow> ('k \<times> 'v) list \<Rightarrow> ('k \<times> 'v) list" where
  "Map_set k v m =
     (if k \<in> set (map fst m) then map (\<lambda>(k', v'). if k' = k then (k', v) else (k', v')) m
      else m @ [(k, v)])"

definition Map_delete :: "'k \<Rightarrow> ('k \<times> 'v) list \<Rightarrow> ('k \<times> 'v) list" where
  "Map_delete k m = filter (\<lambda>(k', v'). k' \<noteq> k) m"

definition Map_values :: "('k \<times> 'v) list \<Rightarrow> 'v list" where
  "Map_values m = map snd m"

subsection \<open>DataStore\<close>

record DataStore =
  products :: "(string \<times> Product) list"
  categories :: "(string \<times> Category) list"
  pages :: "(string \<times> CustomPage) list"
  settings :: SiteSettings

text \<open>A call that returns leaves a store; a call that throws leaves one too.\<close>

datatype 'a outcome = Returned 'a | Threw exception 'a

definition getCategory :: "DataStore \<Rightarrow> string \<Rightarrow> Category option" where
  "getCategory s cid = Map_get (categories s) cid"

definition listCategories :: "DataStore \<Rightarrow> Category list" where
  "listCategories s = Map_values (categories s)"

definition updateCategory ::
  "string \<Rightarrow> CategoryUpdate \<Rightarrow> DataStore \<Rightarrow> Category option \<times> DataStore" where
  "updateCategory cid update s =
     (case Map_get (categories s) cid of
        None \<Rightarrow> (None, s)
      | Some category \<Rightarrow>
          (let merged =
                 \<lparr>category_id = category_id category,
                  category_name = spread (category_name category) (cu_name update),
                  category_slug = spread (category_slug category) (cu_slug update),
                  category_description = spread (category_description category) (cu_description update),
                  category_parentId = spread (category_parentId category) (cu_parentId update)\<rparr>;
               updated =
                 (case read (cu_name update) of
                    None \<Rightarrow> merged
                  | Some n \<Rightarrow> if n \<noteq> [] then merged\<lparr>category_slug := Some (slugify n)\<rparr> else merged)
           in (Some updated, s\<lparr>categories := Map_set cid updated (categories s)\<rparr>)))"

text \<open>
  The ids of stored products under which nothing is stored yet: each of them is a key
  that \<^verbatim>\<open>set(product.id, product)\<close> can still add to the map.
\<close>

definition pending :: "(string \<times> Product) list \<Rightarrow> string set" where
  "pending m = set (map (product_id \<circ> snd) m) - set (map fst m)"

text \<open>
  The callback of \<^verbatim>\<open>this.products.forEach\<close> in \<^verbatim>\<open>removeCategory\<close>, run from entry
  \<open>i\<close> on. \<^verbatim>\<open>forEach\<close> visits the entries in order, those appended during the visit
  included. Each visit filters the product's \<open>categoryIds\<close> (a TypeError when they
  are \<open>undefined\<close>), which changes the product where it is stored, and then stores
  the product under its own id.
\<close>

function forEach_product :: "string \<Rightarrow> nat \<Rightarrow> (string \<times> Product) list \<Rightarrow> (string \<times> Product) list outcome" where
  "forEach_product cid i m =
     (if i < length m then
        (case product_categoryIds (snd (m ! i)) of
           None \<Rightarrow> Threw TypeError m
         | Some ids \<Rightarrow>
             forEach_product cid (Suc i)
               (Map_set (product_id (snd (m ! i)))
                  ((snd (m ! i))\<lparr>product_categoryIds := Some (filter (\<lambda>categoryId. categoryId \<noteq> cid) ids)\<rparr>)
                  (m[i := (fst (m ! i),
                     (snd (m ! i))\<lparr>product_categoryIds := Some (filter (\<lambda>categoryId. categoryId \<noteq> cid) ids)\<rparr>)])))
      else Returned m)"
  by pat_completeness auto

definition removeCategory :: "string \<Rightarrow> DataStore \<Rightarrow> DataStore outcome" where
  "removeCategory cid s =
     (let s1 = s\<lparr>categories := Map_delete cid (categories s)\<rparr>
      in case forEach_product cid 0 (products s1) of
           Returned m \<Rightarrow> Returned (s1\<lparr>products := m\<rparr>)
         | Threw e m \<Rightarrow> Threw e (s1\<lparr>products := m\<rparr>))"

definition listProducts :: "DataStore \<Rightarrow> Product list" where
  "listProducts s = Map_values (products s)"

definition getProduct :: "DataStore \<Rightarrow> string \<Rightarrow> Product option" where
  "getProduct s pid = Map_get (products s) pid"

definition updateProduct ::
  "string \<Rightarrow> ProductUpdate \<Rightarrow> DataStore \<Rightarrow> Product option \<times> DataStore" where
  "updateProduct pid update s =
     (case Map_get (products s) pid of
        None \<Rightarrow> (None, s)
      | Some product \<Rightarrow>
          (let merged =
                 \<lparr>product_id = product_id product,
                  product_name = spread (product_name product) (pu_name update),
                  product_slug = spread (product_slug product) (pu_slug update),
                  product_description = spread (product_description product) (pu_description update),
                  product_price = spread (product_price product) (pu_price update),
                  product_currency = spread (product_currency product) (pu_currency update),
                  product_media = spread (product_media product) (pu_media update),
                  product_additionalInfo =
                    spread (product_additionalInfo product) (pu_additionalInfo update),
                  product_categoryIds = spread (product_categoryIds product) (pu_categoryIds update),
                  product_customTemplate =
                    spread (product_customTemplate product) (pu_customTemplate update)\<rparr>;
               renamed =
                 (case read (pu_name update) of
                    None \<Rightarrow> merged
                  | Some n \<Rightarrow>
                      if n \<noteq> [] \<and> \<not> truthy (read (pu_slug update))
                      then merged\<lparr>product_slug := Some (slugify n)\<rparr> else merged);
               updated =
                 (case read (pu_slug update) of
                    None \<Rightarrow> renamed
                  | Some g \<Rightarrow> if g \<noteq> [] then renamed\<lparr>product_slug := Some (slugify g)\<rparr> else renamed)
           in (Some updated, s\<lparr>products := Map_set pid updated (products s)\<rparr>)))"

definition removeProduct :: "string \<Rightarrow> DataStore \<Rightarrow> DataStore" where
  "removeProduct pid s = s\<lparr>products := Map_delete pid (products s)\<rparr>"

definition listPages :: "DataStore \<Rightarrow> CustomPage list" where
  "listPages s = Map_values (pages s)"

definition getPageBySlug :: "DataStore \<Rightarrow> string \<Rightarrow> CustomPage option" where
  "getPageBySlug s slug = find (\<lambda>page. page_slug page = Some slug) (Map_values (pages s))"

definition updatePage ::
  "string \<Rightarrow> PageUpdate \<Rightarrow> DataStore \<Rightarrow> CustomPage option \<times> DataStore" where
  "updatePage gid update s =
     (case Map_get (pages s) gid of
        None \<Rightarrow> (None, s)
      | Some page \<Rightarrow>
          (let merged =
                 \<lparr>page_id = page_id page,
                  page_title = spread (page_title page) (gu_title update),
                  page_slug = spread (page_slug page) (gu_slug update),
                  page_content = spread (page_content page) (gu_content update),
                  page_template = spread (page_template page) (gu_template update)\<rparr>;
               renamed =
                 (case read (gu_title update) of
                    None \<Rightarrow> merged
                  | Some n \<Rightarrow>
                      if n \<noteq> [] \<and> \<not> truthy (read (gu_slug update))
                      then merged\<lparr>page_slug := Some (slugify n)\<rparr> else merged);
               updated =
                 (case read (gu_slug update) of
                    None \<Rightarrow> renamed
                  | Some g \<Rightarrow> if g \<noteq> [] then renamed\<lparr>page_slug := Some (slugify g)\<rparr> else renamed)
           in (Some updated, s\<lparr>pages := Map_set gid updated (pages s)\<rparr>)))"

definition removePage :: "string \<Rightarrow> DataStore \<Rightarrow> DataStore" where
  "removePage gid s = s\<lparr>pages := Map_delete gid (pages s)\<rparr>"

definition getSettings :: "DataStore \<Rightarrow> SiteSettings" where
  "getSettings s = settings s"

definition updateSettings :: "SettingsUpdate \<Rightarrow> DataStore \<Rightarrow> SiteSettings \<times> DataStore" where
  "updateSettings update s =
     (let merged =
            \<lparr>headerHtml = spread (headerHtml (settings s)) (su_headerHtml update),
             footerHtml = spread (footerHtml (settings s)) (su_footerHtml update),
             paymentGateways = spread (paymentGateways (settings s)) (su_paymentGateways update)\<rparr>
      in (merged, s\<lparr>settings := merged\<rparr>))"

text \<open>\<^verbatim>\<open>product.categoryIds.includes(cid)\<close>, false when the list is \<open>undefined\<close>.\<close>

definition references :: "Product \<Rightarrow> string \<Rightarrow> bool" where
  "references p cid = (case product_categoryIds p of None \<Rightarrow> False | Some ids \<Rightarrow> cid \<in> set ids)"

text \<open>
  The store's own discipline: every key occurs once (it is a \<^verbatim>\<open>Map\<close>) and every
  product is stored under its own id, as \<^verbatim>\<open>createProduct\<close> stores it and
  \<^verbatim>\<open>updateProduct\<close> keeps it.
\<close>

definition own_ids :: "(string \<times> Product) list \<Rightarrow> bool" where
  "own_ids m = (distinct (map fst m) \<and> list_all (\<lambda>e. product_id (snd e) = fst e) m)"

text \<open>One entry with the category id filtered out of the product's categoryIds.\<close>

definition strip_category :: "string \<Rightarrow> string \<times> Product \<Rightarrow> string \<times> Product" where
  "strip_category cid e =
     (fst e, (snd e)\<lparr>product_categoryIds :=
        map_option (filter (\<lambda>categoryId. categoryId \<noteq> cid)) (product_categoryIds (snd e))\<rparr>)"

section \<open>Cart service\<close>

subsection \<open>Form fields\<close>

text \<open>
  A field of \<^verbatim>\<open>req.body\<close> as the urlencoded body parser (extended) leaves it: missing,
  a string, an array or an object.
\<close>

datatype form_value =
    FUndefined
  | FString string
  | FArray "form_value list"
  | FObject "(string \<times> form_value) list"

text \<open>\<^verbatim>\<open>Array.isArray(v) ? v[0] : v\<close>\<close>

fun first_of :: "form_value \<Rightarrow> form_value" where
  "first_of (FArray []) = FUndefined"
| "first_of (FArray (x # xs)) = x"
| "first_of v = v"

text \<open>\<^verbatim>\<open>Array.prototype.join\<close> with the separator \<open>,\<close>.\<close>

fun join :: "string list \<Rightarrow> string" where
  "join [] = []"
| "join [x] = x"
| "join (x # y # ys) = x @ '','' @ join (y # ys)"

text \<open>
  \<^verbatim>\<open>String(v)\<close> on a form field, which \<^verbatim>\<open>parseInt\<close> applies to its argument. An
  array is joined (an \<open>undefined\<close> element counts as the empty string). An object
  prints as \<open>[object Object]\<close> through \<^verbatim>\<open>Object.prototype.toString\<close>, unless it has
  a key \<open>toString\<close> of its own: the value under it is a form field, not a function,
  so the conversion finds neither a \<open>toString\<close> nor a \<open>valueOf\<close> that yields a
  primitive and throws a TypeError (the body parser lets such a key through).
\<close>

lemma map_throwing_cong [fundef_cong]:
  "xs = ys \<Longrightarrow> (\<And>x. x \<in> set ys \<Longrightarrow> f x = g x) \<Longrightarrow> map_throwing f xs = map_throwing g ys"
  by (induction ys arbitrary: xs) (auto split: sum.splits)

fun ToString :: "form_value \<Rightarrow> exception + string" where
  "ToString FUndefined = Inr ''undefined''"
| "ToString (FString s) = Inr s"
| "ToString (FArray xs) =
     (case map_throwing (\<lambda>x. if x = FUndefined then Inr [] else ToString x) xs of
        Inl e \<Rightarrow> Inl e
      | Inr strings \<Rightarrow> Inr (join strings))"
| "ToString (FObject kvs) =
     (if ''toString'' \<in> set (map fst kvs) then Inl TypeError else Inr ''[object Object]'')"

subsection \<open>parseInt\<close>

text \<open>White space, within the first 256 code points: TAB, LF, VT, FF, CR, SP, NBSP.\<close>

definition is_space :: "char \<Rightarrow> bool" where
  "is_space c = ((of_char c :: nat) \<in> {9, 10, 11, 12, 13, 32, 160})"

definition is_digit :: "char \<Rightarrow> bool" where
  "is_digit c = (let n = (of_char c :: nat) in 48 \<le> n \<and> n \<le> 57)"

definition decimal :: "string \<Rightarrow> nat" where
  "decimal ds = foldl (\<lambda>acc c. 10 * acc + (of_char c - 48)) 0 ds"

text \<open>
  \<^verbatim>\<open>Number.parseInt(input, 10)\<close> on a string: leading white space is skipped, one
  sign is read, then the longest run of decimal digits; no digit gives NaN, and the
  integer read is rounded to the nearest double (the language lets an implementation
  approximate digits after the 20th; the model, like V8, rounds the exact integer).
\<close>

definition parseInt :: "string \<Rightarrow> number" where
  "parseInt input =
     (let s = dropWhile is_space input;
          negative = (case s of [] \<Rightarrow> False | c # cs \<Rightarrow> c = CHR ''-'');
          body = (case s of [] \<Rightarrow> [] | c # cs \<Rightarrow> if c = CHR ''-'' \<or> c = CHR ''+'' then cs else s);
          z = takeWhile is_digit body
      in if z = [] then NaN
         else to_double (if negative then - real (decimal z) else real (decimal z)))"

subsection \<open>Adding to the cart\<close>

text \<open>
  \<^verbatim>\<open>Math.max(1, Number.parseInt(quantityRaw ?? '1', 10) || 1)\<close>
\<close>

definition requested_quantity :: "form_value \<Rightarrow> exception + number" where
  "requested_quantity quantityRaw =
     (case ToString (if quantityRaw = FUndefined then FString ''1'' else quantityRaw) of
        Inl e \<Rightarrow> Inl e
      | Inr input \<Rightarrow>
          Inr (Math_max (Fin 1)
                (if num_truthy (parseInt input) then parseInt input else Fin 1)))"

text \<open>
  \<^verbatim>\<open>existingItem.quantity += quantity\<close> on the item that
  \<^verbatim>\<open>items.find((item) => item.productId === product.id)\<close> returns: the first match.
\<close>

fun increment :: "string \<Rightarrow> number \<Rightarrow> CartItem list \<Rightarrow> CartItem list" where
  "increment pid q [] = []"
| "increment pid q (item # items) =
     (if productId item = pid then item\<lparr>quantity := num_add (quantity item) q\<rparr> # items
      else item # increment pid q items)"

text \<open>
  The handler of \<^verbatim>\<open>POST /cart/add\<close> from the decoded cart on, as a function of the
  cart, the two form fields and the store. \<open>Inr None\<close>: the request is turned away
  (the handler redirects and writes no cookie, the cart stays as it is).
  \<open>Inr (Some items)\<close>: the list the handler stores in \<^verbatim>\<open>request.__cartItems\<close> and
  hands to \<^verbatim>\<open>writeCartItems\<close>. \<open>Inl e\<close>: the handler throws, which it can only do
  where it reads the quantity, after the product has been found; nothing catches it.
\<close>

definition addItem ::
  "CartItem list \<Rightarrow> form_value \<Rightarrow> form_value \<Rightarrow> DataStore \<Rightarrow> exception + CartItem list option" where
  "addItem items productIdRaw quantityRaw s =
     (case productIdRaw of
        FString pid \<Rightarrow>
          (case getProduct s pid of
             None \<Rightarrow> Inr None
           | Some product \<Rightarrow>
               (case requested_quantity quantityRaw of
                  Inl e \<Rightarrow> Inl e
                | Inr requested \<Rightarrow>
                    (case find (\<lambda>item. productId item = product_id product) items of
                       Some existingItem \<Rightarrow>
                         Inr (Some (increment (product_id product) requested items))
                     | None \<Rightarrow>
                         Inr (Some (items @
                           [\<lparr>productId = product_id product, quantity = requested\<rparr>])))))
      | _ \<Rightarrow> Inr None)"

record add_form =
  form_productId :: form_value
  form_quantity :: form_value

text \<open>
  The whole handler: the cart is read from the request, the fields from the body. The
  result is what the handler does to the cart cookie (\<open>Inr None\<close>: no cookie is
  set, \<open>Inr (Some c)\<close>: the cookie \<open>c\<close> is set, \<open>Inl e\<close>: the handler threw) and
  the request with its cache.
\<close>

definition cart_add ::
  "coercion \<Rightarrow> DataStore \<Rightarrow> add_form \<Rightarrow> request \<Rightarrow> (exception + cookie_text option) \<times> request" where
  "cart_add coerce s body req =
     (let (items, req1) = parseCartItems coerce req
      in case addItem items (first_of (form_productId body)) (first_of (form_quantity body)) s of
           Inl e \<Rightarrow> (Inl e, req1)
         | Inr None \<Rightarrow> (Inr None, req1)
         | Inr (Some items') \<Rightarrow>
             (Inr (Some (writeCartItems items')), req1\<lparr>cartItems_cache := Some items'\<rparr>))"

subsection \<open>Pricing the cart\<close>

record CartLine =
  line_product :: Product
  line_quantity :: number
  lineTotal :: number

text \<open>
  The handler of \<^verbatim>\<open>GET /cart\<close>: \<^verbatim>\<open>cartItems.map(...)\<close> resolves each item and
  yields \<open>undefined\<close> for a product that is not in the store, \<^verbatim>\<open>.filter(Boolean)\<close>
  drops those, \<^verbatim>\<open>.reduce\<close> adds the line totals up from 0. In
  \<^verbatim>\<open>product.price * item.quantity\<close> a price that is \<open>undefined\<close> multiplies as
  NaN.
\<close>

definition cart_lines :: "CartItem list \<Rightarrow> DataStore \<Rightarrow> CartLine list" where
  "cart_lines cartItems s =
     List.map_filter (\<lambda>item.
        case getProduct s (productId item) of
          None \<Rightarrow> None
        | Some product \<Rightarrow>
            Some \<lparr>line_product = product, line_quantity = quantity item,
                  lineTotal =
                    num_mul (case product_price product of None \<Rightarrow> NaN | Some price \<Rightarrow> price)
                      (quantity item)\<rparr>) cartItems"

definition cart_total :: "CartLine list \<Rightarrow> number" where
  "cart_total lines = foldl (\<lambda>sum item. num_add sum (lineTotal item)) (Fin 0) lines"

record PricedCart =
  lines :: "CartLine list"
  total :: number

definition priceCart :: "CartItem list \<Rightarrow> DataStore \<Rightarrow> PricedCart" where
  "priceCart cartItems s =
     \<lparr>lines = cart_lines cartItems s, total = cart_total (cart_lines cartItems s)\<rparr>"

subsection \<open>Adding to the cart, with the objects it shares\<close>

text \<open>
  The handler of \<^verbatim>\<open>POST /cart/add\<close> works on a copy of the array the request
  caches, \<^verbatim>\<open>[...parseCartItems(request)]\<close>, and the copy holds the same item objects
  as the cached array. To follow what the handler changes, items and arrays live in
  a store of objects: a reference is an index, allocation appends.
\<close>

record heap =
  item_objects :: "CartItem list"
  arrays :: "nat list list"

definition lookup :: "'a list \<Rightarrow> nat \<Rightarrow> 'a option" where
  "lookup xs i = (if i < length xs then Some (xs ! i) else None)"

text \<open>The cart an array denotes: the items its elements refer to.\<close>

definition array_items :: "heap \<Rightarrow> nat \<Rightarrow> CartItem list" where
  "array_items h a =
     (case lookup (arrays h) a of
        None \<Rightarrow> []
      | Some refs \<Rightarrow> List.map_filter (lookup (item_objects h)) refs)"

text \<open>
  The handler from \<^verbatim>\<open>const items = [...parseCartItems(request)]\<close> on; \<open>cached\<close>
  is the array \<^verbatim>\<open>parseCartItems\<close> returned. The result is the outcome and the heap
  the call leaves. \<open>Inr None\<close>: turned away. \<open>Inr (Some (a, cookie))\<close>: the array
  stored in \<^verbatim>\<open>request.__cartItems\<close> and the cookie written. \<open>Inl e\<close>: the handler
  threw while reading the quantity. \<^verbatim>\<open>existingItem.quantity += quantity\<close> assigns
  to the item object that \<^verbatim>\<open>find\<close> returned; \<^verbatim>\<open>items.push\<close> allocates an item and
  extends the copy; \<^verbatim>\<open>items.filter\<close> in \<^verbatim>\<open>writeCartItems\<close> allocates one more
  array.
\<close>

definition addItem_heap ::
  "heap \<Rightarrow> nat \<Rightarrow> form_value \<Rightarrow> form_value \<Rightarrow> DataStore \<Rightarrow>
     (exception + (nat \<times> cookie_text) option) \<times> heap" where
  "addItem_heap h cached productIdRaw quantityRaw s =
     (let refs = (case lookup (arrays h) cached of None \<Rightarrow> [] | Some rs \<Rightarrow> rs);
          items = length (arrays h);
          h1 = h\<lparr>arrays := arrays h @ [refs]\<rparr>
      in case productIdRaw of
           FString pid \<Rightarrow>
             (case getProduct s pid of
                None \<Rightarrow> (Inr None, h1)
              | Some product \<Rightarrow>
                  (case requested_quantity quantityRaw of
                     Inl e \<Rightarrow> (Inl e, h1)
                   | Inr requested \<Rightarrow>
                  (let h2 =
                         (case find (\<lambda>r. case lookup (item_objects h1) r of
                                            None \<Rightarrow> False
                                          | Some item \<Rightarrow> productId item = product_id product) refs of
                            Some r \<Rightarrow>
                              h1\<lparr>item_objects := (item_objects h1)
                                   [r := (item_objects h1 ! r)
                                      \<lparr>quantity := num_add (quantity (item_objects h1 ! r)) requested\<rparr>]\<rparr>
                          | None \<Rightarrow>
                              h1\<lparr>item_objects := item_objects h1 @
                                     [\<lparr>productId = product_id product, quantity = requested\<rparr>],
                                  arrays := (arrays h1)[items := refs @ [length (item_objects h1)]]\<rparr>);
                       sanitized =
                         filter (\<lambda>r. case lookup (item_objects h2) r of
                                        None \<Rightarrow> False
                                      | Some item \<Rightarrow> positive item) (arrays h2 ! items);
                       h3 = h2\<lparr>arrays := arrays h2 @ [sanitized]\<rparr>
                   in (Inr (Some (items, JSON_stringify (array_items h3 (length (arrays h2))))), h3))))
         | _ \<Rightarrow> (Inr None, h1))"

text \<open>
  An array as \<^verbatim>\<open>parseCartItems\<close> builds it: it exists, its elements are item objects
  of the heap, and no object occurs in it twice.
\<close>

definition cart_array :: "heap \<Rightarrow> nat \<Rightarrow> bool" where
  "cart_array h a =
     (case lookup (arrays h) a of
        None \<Rightarrow> False
      | Some refs \<Rightarrow> distinct refs \<and> list_all (\<lambda>r. r < length (item_objects h)) refs)"

section \<open>A small store\<close>

text \<open>The store used in the closed examples: two categories, two products, one page.\<close>

definition apparel :: Category where
  "apparel = \<lparr>category_id = ''c1'', category_name = Some ''Apparel'',
     category_slug = Some ''apparel'', category_description = Some ''Clothing for everyday wear'',
     category_parentId = None\<rparr>"

definition accessories :: Category where
  "accessories = \<lparr>category_id = ''c2'', category_name = Some ''Accessories'',
     category_slug = Some ''accessories'', category_description = None,
     category_parentId = Some ''c1''\<rparr>"

definition shirt :: Product where
  "shirt = \<lparr>product_id = ''p1'', product_name = Some ''Organic Cotton T-Shirt'',
     product_slug = Some ''organic-cotton-t-shirt'', product_description = Some ''Soft'',
     product_price = Some (Fin 10), product_currency = Some ''USD'', product_media = Some [],
     product_additionalInfo = Some [(''Fit'', ''Relaxed fit'')],
     product_categoryIds = Some [''c1''], product_customTemplate = Some ''''\<rparr>"

definition bag :: Product where
  "bag = \<lparr>product_id = ''p2'', product_name = Some ''Leather Weekender Bag'',
     product_slug = Some ''leather-weekender-bag'', product_description = Some ''Handcrafted'',
     product_price = Some (to_double (24999 / 100)), product_currency = Some ''USD'',
     product_media = Some [], product_additionalInfo = Some [],
     product_categoryIds = Some [''c2'', ''c1''], product_customTemplate = Some ''''\<rparr>"

text \<open>
  The two products at the prices the server seeds (l.557 and l.577): 29.99 and 249.99,
  each the double next to the decimal written.
\<close>

definition seeded_products :: "(string \<times> Product) list" where
  "seeded_products =
     [(''p1'', shirt\<lparr>product_price := Some (to_double (2999 / 100))\<rparr>), (''p2'', bag)]"

definition about :: CustomPage where
  "about = \<lparr>page_id = ''g1'', page_title = Some ''About Our Craft'',
     page_slug = Some ''about-our-craft'', page_content = Some ''Handmade with care'',
     page_template = Some ''custom-page.njk''\<rparr>"

definition demo_store :: DataStore where
  "demo_store = \<lparr>products = [(''p1'', shirt), (''p2'', bag)],
     categories = [(''c1'', apparel), (''c2'', accessories)],
     pages = [(''g1'', about)],
     settings = \<lparr>headerHtml = Some ''My Storefront'', footerHtml = Some ''My Storefront'',
       paymentGateways = Some [\<lparr>provider = ''stripe'', enabled = False, publicKey = None,
         secretKey = None, metadata = Some [(''instructions'', ''Configure Stripe keys'')]\<rparr>]\<rparr>\<rparr>"

text \<open>The update \<^verbatim>\<open>{}\<close> of each kind: no key is present.\<close>

definition no_category_update :: CategoryUpdate where
  "no_category_update =
     \<lparr>cu_name = Absent, cu_slug = Absent, cu_description = Absent, cu_parentId = Absent\<rparr>"

definition no_product_update :: ProductUpdate where
  "no_product_update =
     \<lparr>pu_name = Absent, pu_slug = Absent, pu_description = Absent, pu_price = Absent,
      pu_currency = Absent, pu_media = Absent, pu_additionalInfo = Absent,
      pu_categoryIds = Absent, pu_customTemplate = Absent\<rparr>"

definition no_page_update :: PageUpdate where
  "no_page_update = \<lparr>gu_title = Absent, gu_slug = Absent, gu_content = Absent, gu_template = Absent\<rparr>"

definition no_settings_update :: SettingsUpdate where
  "no_settings_update =
     \<lparr>su_headerHtml = Absent, su_footerHtml = Absent, su_paymentGateways = Absent\<rparr>"

text \<open>A heap with one cart: the array \<open>0\<close> holds the item object \<open>0\<close>.\<close>

definition demo_heap :: heap where
  "demo_heap = \<lparr>item_objects = [\<lparr>productId = ''p1'', quantity = Fin 2\<rparr>], arrays = [[0]]\<rparr>"

section \<open>Termination of the visit of the products\<close>

lemma keys_list_update:
  "i < length m \<Longrightarrow> map fst (m[i := (fst (m ! i), p)]) = map fst m"
  by (simp add: map_update list_update_same_conv)

lemma length_Map_set_present: "k \<in> set (map fst m) \<Longrightarrow> length (Map_set k v m) = length m"
  by (simp add: Map_set_def)

lemma keys_Map_set_present: "k \<in> set (map fst m) \<Longrightarrow> map fst (Map_set k v m) = map fst m"
  by (auto simp: Map_set_def split: prod.splits)

lemma values_Map_set_present:
  "set (map snd (Map_set k v m)) \<subseteq> insert v (set (map snd m))"
  by (auto simp: Map_set_def split: if_splits)

text \<open>
  Every visit either leaves the number of entries as it is and moves on by one, or
  appends an entry under an id that was pending and is not any more.
\<close>

lemma forEach_measure:
  assumes i: "i < length m" and m1: "m1 = m[i := (fst (m ! i), p)]"
    and pid: "product_id p = product_id (snd (m ! i))"
  shows "(length (Map_set (product_id p) p m1) - Suc i) + card (pending (Map_set (product_id p) p m1))
        < (length m - i) + card (pending m)"
proof -
  have len1: "length m1 = length m" by (simp add: m1)
  have keys1: "map fst m1 = map fst m" using i by (simp add: m1 keys_list_update)
  have "map (product_id \<circ> snd) m1 = (map (product_id \<circ> snd) m)[i := product_id p]"
    by (simp add: m1 map_update)
  also have "\<dots> = map (product_id \<circ> snd) m"
    using i pid by (simp add: list_update_same_conv)
  finally have ids1: "map (product_id \<circ> snd) m1 = map (product_id \<circ> snd) m" .
  have pend1: "pending m1 = pending m" by (simp only: pending_def keys1 ids1)
  have "m1 ! i = (fst (m ! i), p)" using i by (simp add: m1)
  then have "(fst (m ! i), p) \<in> set m1" using i len1 by (metis nth_mem)
  then have pin: "product_id p \<in> set (map (product_id \<circ> snd) m1)" by force
  show ?thesis
  proof (cases "product_id p \<in> set (map fst m1)")
    case True
    have "set (map (product_id \<circ> snd) (Map_set (product_id p) p m1))
            \<subseteq> set (map (product_id \<circ> snd) m1)"
    proof
      fix x assume "x \<in> set (map (product_id \<circ> snd) (Map_set (product_id p) p m1))"
      then obtain v where v: "v \<in> set (map snd (Map_set (product_id p) p m1))"
        and x: "x = product_id v"
        by auto
      from v values_Map_set_present [of "product_id p" p m1]
      have "v = p \<or> v \<in> set (map snd m1)" by blast
      then show "x \<in> set (map (product_id \<circ> snd) m1)"
      proof
        assume "v = p"
        with x pin show ?thesis by simp
      next
        assume "v \<in> set (map snd m1)"
        with x show ?thesis by auto
      qed
    qed
    then have "pending (Map_set (product_id p) p m1) \<subseteq> pending m1"
      unfolding pending_def keys_Map_set_present [OF True] by blast
    then have "card (pending (Map_set (product_id p) p m1)) \<le> card (pending m1)"
      by (intro card_mono) (simp_all add: pending_def)
    moreover have "length (Map_set (product_id p) p m1) = length m"
      using True len1 by (simp add: length_Map_set_present)
    ultimately show ?thesis using i pend1 by simp
  next
    case False
    have eq: "Map_set (product_id p) p m1 = m1 @ [(product_id p, p)]"
      using False by (simp add: Map_set_def)
    have "pending (m1 @ [(product_id p, p)]) = pending m1 - {product_id p}"
      unfolding pending_def using pin by auto
    moreover have "product_id p \<in> pending m1" using pin False by (simp add: pending_def)
    moreover have "finite (pending m1)" by (simp add: pending_def)
    ultimately have "card (pending (Map_set (product_id p) p m1)) < card (pending m1)"
      unfolding eq by (metis card_Diff1_less)
    then show ?thesis using i len1 pend1 unfolding eq by simp
  qed
qed

termination forEach_product
proof (relation "measure (\<lambda>(cid, i, m). (length m - i) + card (pending m))", goal_cases)
  case 1
  show ?case by simp
next
  case (2 cid i m ids)
  let ?p = "(snd (m ! i))\<lparr>product_categoryIds := Some (filter (\<lambda>categoryId. categoryId \<noteq> cid) ids)\<rparr>"
  have "product_id ?p = product_id (snd (m ! i))" by simp
  from forEach_measure [OF 2(1) refl this] show ?case by simp
qed

declare forEach_product.simps [simp del]

section \<open>Numbers: rounding to the nearest double\<close>

text \<open>
  \<open>round_half_even\<close> is within a half of its argument, goes to the even neighbour
  on a tie and keeps an integer.
\<close>

lemma round_half_even_near: "\<bar>of_int (round_half_even t) - t\<bar> \<le> 1 / 2"
  unfolding round_half_even_def by (auto simp: abs_if) linarith+

lemma round_half_even_tie: "t - of_int \<lfloor>t\<rfloor> = 1 / 2 \<Longrightarrow> even (round_half_even t)"
  by (simp add: round_half_even_def)

lemma round_half_even_of_int: "round_half_even (of_int n) = n"
  by (simp add: round_half_even_def)

text \<open>
  \<open>binade lo hi a\<close> is the exponent of the power of two at or below \<open>a\<close>,
  within the bounds searched; below the range it is the lower bound.
\<close>

lemma binade_range: "lo \<le> hi \<Longrightarrow> lo \<le> binade lo hi a \<and> binade lo hi a \<le> hi"
proof (induction lo hi a rule: binade.induct)
  case (1 lo hi a)
  show ?case
  proof (cases "hi \<le> lo")
    case True
    with 1(3) show ?thesis by (subst binade.simps, subst (2) binade.simps) simp
  next
    case False
    show ?thesis
    proof (cases "2 powi ((lo + hi + 1) div 2) \<le> a")
      case True
      with False 1(1) have "(lo + hi + 1) div 2 \<le> binade ((lo + hi + 1) div 2) hi a \<and> binade ((lo + hi + 1) div 2) hi a \<le> hi"
        by simp
      moreover have "binade lo hi a = binade ((lo + hi + 1) div 2) hi a"
        using False True by (subst binade.simps) simp
      moreover have "lo \<le> (lo + hi + 1) div 2" using False by simp
      ultimately show ?thesis by simp
    next
      case no: False
      with False 1(2) have "lo \<le> binade lo ((lo + hi + 1) div 2 - 1) a \<and> binade lo ((lo + hi + 1) div 2 - 1) a \<le> (lo + hi + 1) div 2 - 1"
        by simp
      moreover have "binade lo hi a = binade lo ((lo + hi + 1) div 2 - 1) a"
        using False no by (subst binade.simps) simp
      moreover have "(lo + hi + 1) div 2 - 1 \<le> hi" using False by simp
      ultimately show ?thesis by simp
    qed
  qed
qed

lemma binade_correct:
  "lo \<le> hi \<Longrightarrow> 2 powi lo \<le> a \<Longrightarrow> a < 2 powi (hi + 1) \<Longrightarrow>
   2 powi (binade lo hi a) \<le> a \<and> a < 2 powi (binade lo hi a + 1)"
proof (induction lo hi a rule: binade.induct)
  case (1 lo hi a)
  show ?case
  proof (cases "hi \<le> lo")
    case True
    with 1(3) have "hi = lo" by simp
    moreover have "binade lo hi a = lo" using True by (subst binade.simps) simp
    ultimately show ?thesis using 1(4,5) by simp
  next
    case False
    show ?thesis
    proof (cases "2 powi ((lo + hi + 1) div 2) \<le> a")
      case True
      have "binade lo hi a = binade ((lo + hi + 1) div 2) hi a"
        using False True by (subst binade.simps) simp
      moreover have "2 powi (binade ((lo + hi + 1) div 2) hi a) \<le> a \<and> a < 2 powi (binade ((lo + hi + 1) div 2) hi a + 1)"
        using False True 1(5) by (intro 1(1)) simp_all
      ultimately show ?thesis by simp
    next
      case no: False
      have "binade lo hi a = binade lo ((lo + hi + 1) div 2 - 1) a"
        using False no by (subst binade.simps) simp
      moreover have "2 powi (binade lo ((lo + hi + 1) div 2 - 1) a) \<le> a \<and> a < 2 powi (binade lo ((lo + hi + 1) div 2 - 1) a + 1)"
        using False no 1(4) by (intro 1(2)) simp_all
      ultimately show ?thesis by simp
    qed
  qed
qed

lemma binade_below:
  "a < 2 powi lo \<Longrightarrow> binade lo hi a = lo"
proof (induction lo hi a rule: binade.induct)
  case (1 lo hi a)
  show ?case
  proof (cases "hi \<le> lo")
    case True
    then show ?thesis by (subst binade.simps) simp
  next
    case False
    then have "lo \<le> (lo + hi + 1) div 2" by simp
    then have "(2::real) powi lo \<le> 2 powi ((lo + hi + 1) div 2)"
      by (intro power_int_increasing) simp_all
    with 1(3) have no: "\<not> 2 powi ((lo + hi + 1) div 2) \<le> a" by simp
    have "binade lo hi a = binade lo ((lo + hi + 1) div 2 - 1) a"
      using False no by (subst binade.simps) simp
    also have "\<dots> = lo" using False no 1(3) by (intro 1(2)) simp_all
    finally show ?thesis .
  qed
qed

text \<open>
  The spacing of the doubles around \<open>a\<close>: 52 binary places below the leading
  one for a normal number, and \<open>2 powi (- 1074)\<close> below the normal range.
\<close>

lemma quantum_pos: "0 < quantum a"
  by (simp add: quantum_def)

lemma quantum_normal:
  assumes "2 powi (- 1022) \<le> a" and "a < 2 ^ 1024"
  shows "\<exists>e. - 1022 \<le> e \<and> e \<le> 1023 \<and> 2 powi e \<le> a \<and> a < 2 powi (e + 1) \<and> quantum a = 2 powi (e - 52)"
proof -
  have "a < 2 powi (1023 + 1)" using assms(2) by simp
  with assms(1) have "2 powi (binade (- 1022) 1023 a) \<le> a \<and> a < 2 powi (binade (- 1022) 1023 a + 1)"
    by (intro binade_correct) simp_all
  moreover have "- 1022 \<le> binade (- 1022) 1023 a \<and> binade (- 1022) 1023 a \<le> 1023"
    by (intro binade_range) simp
  ultimately show ?thesis by (auto simp: quantum_def)
qed

lemma quantum_subnormal: "a < 2 powi (- 1022) \<Longrightarrow> quantum a = 2 powi (- 1074)"
  by (simp add: quantum_def binade_below)

text \<open>
  A finite result of \<open>to_double\<close> is a multiple of the spacing at most half a
  spacing from the real number rounded: it is a nearest double.
\<close>

lemma to_double_near:
  assumes "to_double r = Fin d"
  shows "\<bar>d - r\<bar> \<le> quantum \<bar>r\<bar> / 2" and "\<exists>m. d = of_int m * quantum \<bar>r\<bar>"
proof -
  define q where "q = quantum \<bar>r\<bar>"
  define n where "n = round_half_even (\<bar>r\<bar> / q)"
  have q: "0 < q" by (simp add: q_def quantum_pos)
  from assms have d: "d = (if r < 0 then - (of_int n * q) else of_int n * q)"
    by (simp add: to_double_def q_def n_def split: if_splits)
  have "\<bar>of_int n - \<bar>r\<bar> / q\<bar> \<le> 1 / 2"
    unfolding n_def by (rule round_half_even_near)
  then have "\<bar>of_int n - \<bar>r\<bar> / q\<bar> * q \<le> 1 / 2 * q"
    using q by (intro mult_right_mono) simp_all
  also have "\<bar>of_int n - \<bar>r\<bar> / q\<bar> * q = \<bar>(of_int n - \<bar>r\<bar> / q) * q\<bar>"
    using q by (simp add: abs_mult)
  also have "(of_int n - \<bar>r\<bar> / q) * q = of_int n * q - \<bar>r\<bar>"
    using q by (simp add: left_diff_distrib)
  finally have "\<bar>of_int n * q - \<bar>r\<bar>\<bar> \<le> q / 2" by simp
  with d show "\<bar>d - r\<bar> \<le> quantum \<bar>r\<bar> / 2"
    by (auto simp: q_def abs_if split: if_splits)
  from d show "\<exists>m. d = of_int m * quantum \<bar>r\<bar>"
    by (cases "r < 0") (auto simp: q_def intro: exI [of _ "- n"] exI [of _ n])
qed

lemma round_half_even_ge: "of_int m \<le> t \<Longrightarrow> m \<le> round_half_even t"
proof -
  assume "of_int m \<le> t"
  then have "m \<le> \<lfloor>t\<rfloor>" by (simp add: le_floor_iff)
  then show ?thesis by (simp add: round_half_even_def)
qed

lemma round_half_even_le: "t \<le> of_int m \<Longrightarrow> round_half_even t \<le> m"
proof (cases "t = of_int m")
  case True
  then show ?thesis by (simp add: round_half_even_of_int)
next
  case False
  assume "t \<le> of_int m"
  with False have "t < of_int m" by simp
  then have "\<lfloor>t\<rfloor> < m" by (simp add: floor_less_iff)
  then show ?thesis by (simp add: round_half_even_def)
qed

lemma binade_unique:
  assumes "lo \<le> e" "e \<le> hi" "2 powi e \<le> a" "a < 2 powi (e + 1)"
  shows "binade lo hi a = e"
proof -
  let ?b = "binade lo hi a"
  have "(2::real) powi lo \<le> 2 powi e"
    using assms(1) by (intro power_int_increasing) simp_all
  with assms(3) have lo: "2 powi lo \<le> a" by simp
  have "(2::real) powi (e + 1) \<le> 2 powi (hi + 1)"
    using assms(2) by (intro power_int_increasing) simp_all
  with assms(4) have hi: "a < 2 powi (hi + 1)" by simp
  from assms(1,2) have "lo \<le> hi" by simp
  from binade_correct [OF this lo hi]
  have b: "2 powi ?b \<le> a" "a < 2 powi (?b + 1)" by simp_all
  have "\<not> e + 1 \<le> ?b"
  proof
    assume "e + 1 \<le> ?b"
    then have "(2::real) powi (e + 1) \<le> 2 powi ?b"
      by (intro power_int_increasing) simp_all
    with b(1) assms(4) show False by simp
  qed
  moreover have "\<not> ?b + 1 \<le> e"
  proof
    assume "?b + 1 \<le> e"
    then have "(2::real) powi (?b + 1) \<le> 2 powi e"
      by (intro power_int_increasing) simp_all
    with b(2) assms(3) show False by simp
  qed
  ultimately show ?thesis by simp
qed

lemma binade_above: "lo \<le> hi \<Longrightarrow> 2 powi hi \<le> a \<Longrightarrow> binade lo hi a = hi"
proof (induction lo hi a rule: binade.induct)
  case (1 lo hi a)
  show ?case
  proof (cases "hi \<le> lo")
    case True
    then have "binade lo hi a = lo" by (subst binade.simps) simp
    moreover from True 1(3) have "lo = hi" by simp
    ultimately show ?thesis by simp
  next
    case False
    then have "(lo + hi + 1) div 2 \<le> hi" by simp
    then have "(2::real) powi ((lo + hi + 1) div 2) \<le> 2 powi hi"
      by (intro power_int_increasing) simp_all
    with 1(4) have yes: "2 powi ((lo + hi + 1) div 2) \<le> a" by simp
    have "binade lo hi a = binade ((lo + hi + 1) div 2) hi a"
      using False yes by (subst binade.simps) simp
    also have "\<dots> = hi" using False yes 1(4) by (intro 1(1)) simp_all
    finally show ?thesis .
  qed
qed

lemma two_powi_add: "(2::real) powi (m + n) = 2 powi m * 2 powi n"
  by (simp add: power_int_add)

text \<open>A rounded magnitude below the overflow threshold rounds to itself.\<close>

lemma rounded_fixed:
  assumes a: "0 \<le> a"
    and a': "a' = of_int (round_half_even (a / quantum a)) * quantum a"
    and fin: "a' < 2 ^ 1024"
  shows "of_int (round_half_even (a' / quantum a')) * quantum a' = a'"
proof -
  define q where "q = quantum a"
  define n where "n = round_half_even (a / q)"
  have q: "0 < q" by (simp add: q_def quantum_pos)
  have a'n: "a' = of_int n * q" by (simp add: a' n_def q_def)
  have same: ?thesis if "quantum a' = q"
  proof -
    have "a' / q = of_int n" using q by (simp add: a'n)
    then have "round_half_even (a' / q) = n" by (simp only: round_half_even_of_int)
    then show ?thesis unfolding that by (simp only: a'n)
  qed
  consider (sub) "a < 2 powi (- 1022)" | (normal) "2 powi (- 1022) \<le> a" "a < 2 ^ 1024"
    | (over) "2 ^ 1024 \<le> a"
    by linarith
  then show ?thesis
  proof cases
    case sub
    then have qv: "q = 2 powi (- 1074)" by (simp add: q_def quantum_subnormal)
    have "a / q \<le> 2 powi 52"
    proof -
      have "a \<le> 2 powi 52 * q"
        using sub by (simp add: qv two_powi_add [symmetric])
      then show ?thesis using q by (simp add: pos_divide_le_eq)
    qed
    then have "a / q \<le> of_int (2 ^ 52)" by simp
    then have "n \<le> 2 ^ 52" unfolding n_def by (rule round_half_even_le)
    then have "(of_int n :: real) \<le> of_int (2 ^ 52)" by (simp only: of_int_le_iff)
    then have "of_int n * q \<le> 2 powi 52 * q"
      using q by (intro mult_right_mono) simp_all
    then have le: "a' \<le> 2 powi (- 1022)"
      by (simp add: a'n) (simp add: qv two_powi_add [symmetric])
    show ?thesis
    proof (cases "a' < 2 powi (- 1022)")
      case True
      then show ?thesis by (intro same) (simp add: quantum_subnormal qv)
    next
      case False
      with le have eq: "a' = 2 powi (- 1022)" by simp
      have "binade (- 1022) 1023 a' = - 1022"
        by (rule binade_unique) (simp_all add: eq)
      then show ?thesis by (intro same) (simp add: quantum_def qv)
    qed
  next
    case normal
    from quantum_normal [OF normal] obtain e where e: "- 1022 \<le> e" "e \<le> 1023"
      "2 powi e \<le> a" "a < 2 powi (e + 1)" and qv: "q = 2 powi (e - 52)"
      by (auto simp: q_def)
    have "(2::real) powi (52 + (e - 52)) = 2 powi 52 * 2 powi (e - 52)"
      and "(2::real) powi (53 + (e - 52)) = 2 powi 53 * 2 powi (e - 52)"
      by (rule two_powi_add)+
    then have e52: "(2::real) powi e = 2 powi 52 * q" and e53: "(2::real) powi (e + 1) = 2 powi 53 * q"
      by (simp_all add: qv add.commute)
    have "of_int (2 ^ 52) \<le> a / q"
      using e(3) q by (simp add: e52 pos_le_divide_eq)
    then have n_lo: "2 ^ 52 \<le> n" unfolding n_def by (rule round_half_even_ge)
    have "a / q \<le> of_int (2 ^ 53)"
      using e(4) q by (simp add: e53 pos_divide_le_eq)
    then have n_hi: "n \<le> 2 ^ 53" unfolding n_def by (rule round_half_even_le)
    from n_lo have "(of_int (2 ^ 52) :: real) \<le> of_int n" by (simp only: of_int_le_iff)
    then have "2 powi 52 * q \<le> of_int n * q"
      using q by (intro mult_right_mono) simp_all
    then have lo: "2 powi e \<le> a'" by (simp add: e52 a'n)
    show ?thesis
    proof (cases "n = 2 ^ 53")
      case False
      with n_hi have "n \<le> 2 ^ 53 - 1" by simp
      then have "(of_int n :: real) \<le> of_int (2 ^ 53 - 1)" by (simp only: of_int_le_iff)
      then have "(of_int n :: real) < 2 powi 53" by simp
      then have "of_int n * q < 2 powi 53 * q"
        using q by (intro mult_strict_right_mono) simp_all
      then have "a' < 2 powi (e + 1)" by (simp add: e53 a'n)
      with lo e(1,2) have "binade (- 1022) 1023 a' = e"
        by (intro binade_unique) simp_all
      then show ?thesis by (intro same) (simp add: quantum_def qv)
    next
      case True
      then have top: "a' = 2 powi (e + 1)" by (simp add: a'n e53)
      have "e + 1 \<le> 1023"
      proof (rule ccontr)
        assume "\<not> e + 1 \<le> 1023"
        then have "1024 \<le> e + 1" by simp
        then have "(2::real) powi 1024 \<le> 2 powi (e + 1)"
          by (intro power_int_increasing) simp_all
        with fin top show False by simp
      qed
      moreover have "a' < 2 powi (e + 1 + 1)"
        unfolding top by (intro power_int_strict_increasing) simp_all
      ultimately have "binade (- 1022) 1023 a' = e + 1"
        using e(1) by (intro binade_unique) (simp_all add: top)
      then have q': "quantum a' = 2 * q"
        by (simp add: quantum_def qv) (simp add: two_powi_add [symmetric] flip: power_int_add_1')
      have "a' / (2 * q) = of_int (2 ^ 52)"
        using q by (simp add: a'n True)
      then have r: "round_half_even (a' / (2 * q)) = 2 ^ 52"
        by (simp only: round_half_even_of_int)
      have "of_int (2 ^ 52) * (2 * q) = a'" by (simp add: a'n True)
      then show ?thesis unfolding q' r .
    qed
  next
    case over
    then have "2 powi 1023 \<le> a"
      by (intro order_trans [OF _ over]) simp
    then have "binade (- 1022) 1023 a = 1023"
      by (intro binade_above) simp_all
    then have qv: "q = 2 powi 971" by (simp add: q_def quantum_def)
    have "of_int (2 ^ 53) \<le> a / q"
      using over by (simp add: qv)
    then have "2 ^ 53 \<le> n" unfolding n_def by (rule round_half_even_ge)
    then have "(of_int (2 ^ 53) :: real) \<le> of_int n" by (simp only: of_int_le_iff)
    then have "2 powi 53 * q \<le> of_int n * q"
      using q by (intro mult_right_mono) simp_all
    then have "2 ^ 1024 \<le> a'" by (simp add: a'n qv)
    with fin show ?thesis by simp
  qed
qed

lemma round_half_even_nonneg: "0 \<le> t \<Longrightarrow> 0 \<le> round_half_even t"
  using round_half_even_ge [of 0 t] by simp

text \<open>A double is a fixed point of \<open>to_double\<close>, and \<open>to_double\<close> yields doubles only.\<close>

lemma to_double_idem:
  assumes "to_double r = Fin d"
  shows "to_double d = Fin d"
proof -
  define a' where "a' = of_int (round_half_even (\<bar>r\<bar> / quantum \<bar>r\<bar>)) * quantum \<bar>r\<bar>"
  from assms have fin: "a' < 2 ^ 1024" and d: "d = (if r < 0 then - a' else a')"
    by (simp_all add: to_double_def a'_def split: if_splits)
  have "0 \<le> \<bar>r\<bar> / quantum \<bar>r\<bar>"
    using quantum_pos [of "\<bar>r\<bar>"] by simp
  then have "0 \<le> round_half_even (\<bar>r\<bar> / quantum \<bar>r\<bar>)" by (rule round_half_even_nonneg)
  then have nonneg: "0 \<le> a'"
    using quantum_pos [of "\<bar>r\<bar>"] by (simp add: a'_def)
  then have abs: "\<bar>d\<bar> = a'" by (simp add: d)
  have fixed: "of_int (round_half_even (a' / quantum a')) * quantum a' = a'"
    by (rule rounded_fixed [OF _ a'_def fin]) simp
  show ?thesis
    using fin nonneg by (simp add: to_double_def abs fixed) (simp add: d)
qed

text \<open>
  Addition, multiplication and \<^verbatim>\<open>parseInt\<close> yield doubles, whatever they are
  given.
\<close>

lemma is_double_to_double: "is_double (to_double r)"
  by (cases "to_double r") (simp_all add: is_double_def to_double_idem)

lemma is_double_num_add: "is_double (num_add a b)"
  by (cases a; cases b) (simp_all add: is_double_to_double, simp_all add: is_double_def)

lemma is_double_num_mul: "is_double (num_mul a b)"
  by (cases a; cases b) (simp_all add: is_double_to_double, simp_all add: is_double_def)

lemma is_double_parseInt: "is_double (parseInt input)"
  by (simp add: parseInt_def Let_def is_double_to_double) (simp add: is_double_def)

text \<open>
  The definitions that evaluate \<open>to_double\<close> at a numeral, and some values:
  \<open>0.1\<close>, \<open>0.1 * 3\<close> (which is not the double \<open>0.3\<close>), the tie at
  \<open>2 ^ 53 + 1\<close>, which goes down to the even neighbour, the one at \<open>2 ^ 53 + 3\<close>,
  which goes up, the overflow to infinity at \<open>2 ^ 1024 - 2 ^ 970\<close>, and the
  smallest subnormal numbers.
\<close>

lemmas double_eval = to_double_def quantum_def binade.simps round_half_even_def

lemma to_double_examples:
  "to_double 0 = Fin 0"
  "to_double 5 = Fin 5"
  "to_double (1 / 10) = Fin (3602879701896397 / 36028797018963968)"
  "to_double (3602879701896397 / 36028797018963968 * 3) = Fin (1351079888211149 / 4503599627370496)"
  "to_double (2 ^ 53 + 1) = Fin (2 ^ 53)"
  "to_double (2 ^ 53 + 3) = Fin (2 ^ 53 + 4)"
  "to_double (2 ^ 1024 - 2 ^ 970) = PosInf"
  "to_double (- (2 ^ 1024)) = NegInf"
  "to_double (1 / 2 ^ 1075) = Fin 0"
  "to_double (3 / 2 ^ 1075) = Fin (2 / 2 ^ 1074)"
  by (simp_all add: double_eval)

lemma is_double_small: "is_double (Fin 0)" "is_double (Fin 1)"
  by (simp_all add: is_double_def double_eval)

section \<open>Properties of the cart codec\<close>

lemma decode_absent: "decode coerce None = []"
  by (simp add: decode_def)

lemma decode_not_json: "decode coerce (Some (NotJson s)) = []"
  by (simp add: decode_def parse_body_def)

lemma decode_array:
  "decode coerce (Some (JsonText (JArr xs))) =
     (case map_throwing (sanitize coerce) xs of Inl e \<Rightarrow> [] | Inr items \<Rightarrow> filter keeps items)"
  by (simp add: decode_def parse_body_def split: sum.splits)

lemma map_throwing_Inr: "map_throwing f xs = Inr ys \<longleftrightarrow> map f xs = map Inr ys"
proof (induction xs arbitrary: ys)
  case Nil
  show ?case by auto
next
  case (Cons x xs)
  show ?case
  proof (cases ys)
    case Nil
    then show ?thesis by (simp split: sum.splits)
  next
    case (Cons y ys')
    then show ?thesis using Cons.IH [of ys']
      by (auto split: sum.splits)
  qed
qed

lemma map_throwing_Inl: "(\<exists>e. map_throwing f xs = Inl e) \<longleftrightarrow> (\<exists>x \<in> set xs. isl (f x))"
  by (induction xs) (auto split: sum.splits simp: isl_def)

lemma sanitize_finite: "sanitize coerce x = Inr item \<Longrightarrow> isFinite (quantity item)"
  by (auto simp: sanitize_def split: sum.splits)

lemma map_sanitize_finite:
  "map (sanitize coerce) xs = map Inr items \<Longrightarrow> item \<in> set items \<Longrightarrow> isFinite (quantity item)"
proof -
  assume a: "map (sanitize coerce) xs = map Inr items" and b: "item \<in> set items"
  from b have "Inr item \<in> set (map (sanitize coerce) xs)" unfolding a by simp
  then obtain x where "sanitize coerce x = Inr item" by auto
  then show ?thesis by (rule sanitize_finite)
qed

lemma keeps_iff:
  "isFinite (quantity item) \<Longrightarrow>
     keeps item \<longleftrightarrow> \<not> (productId item = [] \<or> num_le (quantity item) (Fin 0))"
  by (cases "quantity item") (auto simp: keeps_def num_le_def)

lemma decode_kept:
  assumes "item \<in> set (decode coerce raw)"
  shows "productId item \<noteq> [] \<and> isFinite (quantity item) \<and> num_gt (quantity item) (Fin 0)"
proof -
  from assms obtain t where t: "raw = Some t" by (cases raw) (auto simp: decode_def)
  show ?thesis
  proof (cases t)
    case (NotJson s)
    with assms t show ?thesis by (simp add: decode_not_json)
  next
    case (JsonText v)
    show ?thesis
    proof (cases v)
      case (JArr xs)
      show ?thesis
      proof (cases "map_throwing (sanitize coerce) xs")
        case (Inl e)
        with assms t JsonText JArr show ?thesis by (simp add: decode_array)
      next
        case (Inr items)
        with assms t JsonText JArr have i: "item \<in> set items" and k: "keeps item"
          by (simp_all add: decode_array)
        from Inr have "map (sanitize coerce) xs = map Inr items" by (simp add: map_throwing_Inr)
        from this i have "isFinite (quantity item)" by (rule map_sanitize_finite)
        with k show ?thesis by (simp add: keeps_def)
      qed
    qed (use assms t JsonText in \<open>simp_all add: decode_def parse_body_def\<close>)
  qed
qed

lemma sanitize_primitive:
  "sanitize coerce JNull = Inl TypeError"
  "sanitize coerce (JBool b) = Inr \<lparr>productId = [], quantity = Fin 0\<rparr>"
  "sanitize coerce (JNum n) = Inr \<lparr>productId = [], quantity = Fin 0\<rparr>"
  "sanitize coerce (JStr s) = Inr \<lparr>productId = [], quantity = Fin 0\<rparr>"
  "sanitize coerce (JArr zs) = Inr \<lparr>productId = [], quantity = Fin 0\<rparr>"
  by (simp_all add: sanitize_def)

lemma sanitize_object:
  "sanitize coerce (JObj kvs) =
     (case Number_of coerce (map_of kvs ''quantity'') of
        Inl e \<Rightarrow> Inl e
      | Inr n \<Rightarrow> Inr \<lparr>productId = (case map_of kvs ''productId'' of Some (JStr s) \<Rightarrow> s | _ \<Rightarrow> []),
                      quantity = (if isFinite n then n else Fin 0)\<rparr>)"
  by (simp add: sanitize_def)

lemma map_throwing_written:
  "map_throwing (sanitize coerce) (map (\<lambda>item.
        JObj [(''productId'', JStr (productId item)),
              (''quantity'', if isFinite (quantity item) then JNum (quantity item) else JNull)]) items) =
   Inr (map (\<lambda>item. \<lparr>productId = productId item,
                      quantity = (if isFinite (quantity item) then quantity item else Fin 0)\<rparr>) items)"
  by (induction items) (simp_all add: sanitize_def)

lemma filter_keeps_written:
  "filter keeps (map (\<lambda>item. \<lparr>productId = productId item,
                      quantity = (if isFinite (quantity item) then quantity item else Fin 0)\<rparr>)
                  (filter positive items))
   = filter (\<lambda>item. productId item \<noteq> [] \<and> isFinite (quantity item)
                 \<and> num_gt (quantity item) (Fin 0)) items"
  by (induction items) (auto simp: keeps_def positive_def)

text \<open>
  C1, as the code has it. Writing a cart to the cookie and reading it back returns, in
  their original order and unchanged, exactly the items whose productId is not empty
  and whose quantity is a finite number greater than zero. Every other item is dropped:
  a quantity that is zero, negative or NaN is dropped by \<open>writeCartItems\<close>, an infinite
  quantity is written as \<open>null\<close> and read back as zero, and an empty productId is
  dropped by the decoder's own filter.
\<close>

theorem codec_round_trip:
  "decode coerce (Some (writeCartItems items)) =
     filter (\<lambda>item. productId item \<noteq> [] \<and> isFinite (quantity item)
                  \<and> num_gt (quantity item) (Fin 0)) items"
  by (simp add: decode_def writeCartItems_def JSON_stringify_def parse_body_def
      map_throwing_written filter_keeps_written)

text \<open>
  C1 as stated fails: an item with a positive quantity and an empty productId, and an
  item with an infinite quantity, are both lost on the way through the cookie, although
  the claim keeps every item whose quantity is greater than zero.
\<close>

theorem codec_round_trip_counterexample:
  "set (decode throwing (Some (writeCartItems [\<lparr>productId = '''', quantity = Fin 1\<rparr>])))
     \<noteq> set (filter positive [\<lparr>productId = '''', quantity = Fin 1\<rparr>])
   \<and> set (decode throwing (Some (writeCartItems [\<lparr>productId = ''p1'', quantity = PosInf\<rparr>])))
     \<noteq> set (filter positive [\<lparr>productId = ''p1'', quantity = PosInf\<rparr>])"
  by (simp add: decode_def writeCartItems_def JSON_stringify_def parse_body_def sanitize_def
      keeps_def positive_def)

text \<open>
  C4. Decoding is fail-soft: an absent cookie, an empty one, a text that
  \<^verbatim>\<open>JSON.parse\<close> rejects and a text that parses to anything but an array (null, a
  boolean, a number, a string, an object) all give the empty cart; whatever the body of
  the \<^verbatim>\<open>try\<close> block throws, the result is the empty cart, so no exception reaches
  the caller (\<open>decode\<close> returns a list on every input). The four inputs of the
  specification, \<^verbatim>\<open>""\<close>, \<^verbatim>\<open>undefined\<close>, \<^verbatim>\<open>"not json"\<close> and \<^verbatim>\<open>"[1,2,3]"\<close>, are the last
  four conjuncts.
\<close>

theorem decode_fail_soft:
  "decode coerce (Some (NotJson s)) = []
   \<and> decode coerce (Some (JsonText JNull)) = []
   \<and> decode coerce (Some (JsonText (JBool b))) = []
   \<and> decode coerce (Some (JsonText (JNum n))) = []
   \<and> decode coerce (Some (JsonText (JStr s'))) = []
   \<and> decode coerce (Some (JsonText (JObj kvs))) = []
   \<and> decode coerce (Some t) = (case parse_body coerce t of Inl e \<Rightarrow> [] | Inr items \<Rightarrow> items)
   \<and> decode coerce (Some (NotJson '''')) = []
   \<and> decode coerce None = []
   \<and> decode coerce (Some (NotJson ''not json'')) = []
   \<and> decode coerce (Some (JsonText (JArr [JNum (Fin 1), JNum (Fin 2), JNum (Fin 3)]))) = []"
  by (simp add: decode_def parse_body_def sanitize_def keeps_def)

text \<open>
  C5, as the code has it. For a text that parses to an array: when no element makes
  the callback throw, every element is coerced to one item (productId: the element's
  own \<open>productId\<close> if it is a string, else empty; quantity: \<^verbatim>\<open>Number\<close> of the
  element's own \<open>quantity\<close> if that is finite, else zero; an element that is not an
  object has neither property), and the decoder drops exactly the coerced items whose
  productId is empty or whose quantity is at most zero. When an element does make the
  callback throw (the element \<open>null\<close>, or a quantity whose conversion throws), the
  \<^verbatim>\<open>catch\<close> gives the empty cart. Every item of a decoded cart has a non-empty
  productId and a finite quantity greater than zero; the quantity is not rounded to an
  integer.
\<close>

theorem decode_sanitizes:
  "(map (sanitize coerce) xs = map Inr items \<longrightarrow>
      decode coerce (Some (JsonText (JArr xs))) =
        filter (\<lambda>item. \<not> (productId item = [] \<or> num_le (quantity item) (Fin 0))) items)
   \<and> ((\<exists>y \<in> set ys. isl (sanitize coerce y)) \<longrightarrow>
        decode coerce (Some (JsonText (JArr ys))) = [])
   \<and> sanitize coerce JNull = Inl TypeError
   \<and> sanitize coerce (JBool b) = Inr \<lparr>productId = [], quantity = Fin 0\<rparr>
   \<and> sanitize coerce (JNum n) = Inr \<lparr>productId = [], quantity = Fin 0\<rparr>
   \<and> sanitize coerce (JStr s) = Inr \<lparr>productId = [], quantity = Fin 0\<rparr>
   \<and> sanitize coerce (JArr zs) = Inr \<lparr>productId = [], quantity = Fin 0\<rparr>
   \<and> sanitize coerce (JObj kvs) =
       (case Number_of coerce (map_of kvs ''quantity'') of
          Inl e \<Rightarrow> Inl e
        | Inr q \<Rightarrow>
            Inr \<lparr>productId = (case map_of kvs ''productId'' of Some (JStr p) \<Rightarrow> p | _ \<Rightarrow> []),
                 quantity = (if isFinite q then q else Fin 0)\<rparr>)
   \<and> (\<forall>item \<in> set (decode coerce raw).
        productId item \<noteq> [] \<and> isFinite (quantity item) \<and> num_gt (quantity item) (Fin 0))"
proof -
  have 1: "decode coerce (Some (JsonText (JArr xs))) =
        filter (\<lambda>item. \<not> (productId item = [] \<or> num_le (quantity item) (Fin 0))) items"
    if m: "map (sanitize coerce) xs = map Inr items"
  proof -
    have "filter keeps items =
        filter (\<lambda>item. \<not> (productId item = [] \<or> num_le (quantity item) (Fin 0))) items"
      by (rule filter_cong [OF refl]) (auto dest: map_sanitize_finite [OF m] simp: keeps_iff)
    moreover from m have "map_throwing (sanitize coerce) xs = Inr items"
      by (simp add: map_throwing_Inr)
    ultimately show ?thesis by (simp add: decode_array)
  qed
  have 2: "decode coerce (Some (JsonText (JArr ys))) = []"
    if "\<exists>y \<in> set ys. isl (sanitize coerce y)"
  proof -
    from that obtain e where "map_throwing (sanitize coerce) ys = Inl e"
      using map_throwing_Inl [of "sanitize coerce" ys] by blast
    then show ?thesis by (simp add: decode_array)
  qed
  show ?thesis
    using 1 2 by (simp add: sanitize_primitive sanitize_object decode_kept)
qed

theorem decode_sanitizes_witness:
  "decode throwing (Some (JsonText (JArr
      [JObj [(''productId'', JStr ''p1''), (''quantity'', JNum (Fin 2))],
       JObj [(''productId'', JStr ''p2''), (''quantity'', JNum (Fin 0))],
       JObj [(''productId'', JNum (Fin 5)), (''quantity'', JNum (Fin 1))],
       JNum (Fin 7)]))) = [\<lparr>productId = ''p1'', quantity = Fin 2\<rparr>]
   \<and> decode throwing (Some (JsonText (JArr
      [JNull, JObj [(''productId'', JStr ''p1''), (''quantity'', JNum (Fin 2))]]))) = []"
  using decode_sanitizes [of throwing
      "[JObj [(''productId'', JStr ''p1''), (''quantity'', JNum (Fin 2))],
        JObj [(''productId'', JStr ''p2''), (''quantity'', JNum (Fin 0))],
        JObj [(''productId'', JNum (Fin 5)), (''quantity'', JNum (Fin 1))],
        JNum (Fin 7)]"
      "[\<lparr>productId = ''p1'', quantity = Fin 2\<rparr>, \<lparr>productId = ''p2'', quantity = Fin 0\<rparr>,
        \<lparr>productId = [], quantity = Fin 1\<rparr>, \<lparr>productId = [], quantity = Fin 0\<rparr>]"
      "[JNull, JObj [(''productId'', JStr ''p1''), (''quantity'', JNum (Fin 2))]]"
      True NaN "[]" "[]" "[]"
      "Some (JsonText (JArr [JObj [(''productId'', JStr ''p1''), (''quantity'', JNum (Fin 2))]]))"]
  by (simp add: num_le_def sanitize_def)

text \<open>
  C5 as stated fails: the quantity is coerced with \<^verbatim>\<open>Number\<close>, which keeps fractions,
  so the cookie \<^verbatim>\<open>[{"productId":"p1","quantity":1.5}]\<close> decodes to a cart whose one
  item has the quantity 1.5, which is not an integer.
\<close>

theorem decode_sanitizes_counterexample:
  "map quantity (decode throwing (Some (JsonText (JArr
      [JObj [(''productId'', JStr ''p1''), (''quantity'', JNum (Fin (3 / 2)))]])))) = [Fin (3 / 2)]
   \<and> \<not> is_integer (Fin (3 / 2))"
  by (simp add: decode_def parse_body_def sanitize_def keeps_def is_integer_def)

section \<open>Properties of the catalog store\<close>

subsection \<open>Category deletion\<close>

lemma Map_set_nth:
  "j < length m \<Longrightarrow> snd (Map_set k v m ! j) = snd (m ! j) \<or> snd (Map_set k v m ! j) = v"
  by (cases "m ! j") (auto simp: Map_set_def nth_append)

lemma forEach_product_step:
  "i < length m \<Longrightarrow> product_categoryIds (snd (m ! i)) = Some ids \<Longrightarrow>
   forEach_product cid i m =
     forEach_product cid (Suc i)
       (Map_set (product_id (snd (m ! i)))
          ((snd (m ! i))\<lparr>product_categoryIds := Some (filter (\<lambda>categoryId. categoryId \<noteq> cid) ids)\<rparr>)
          (m[i := (fst (m ! i),
             (snd (m ! i))\<lparr>product_categoryIds := Some (filter (\<lambda>categoryId. categoryId \<noteq> cid) ids)\<rparr>)]))"
  by (subst forEach_product.simps) simp

lemma forEach_product_throw:
  "i < length m \<Longrightarrow> product_categoryIds (snd (m ! i)) = None \<Longrightarrow>
   forEach_product cid i m = Threw TypeError m"
  by (subst forEach_product.simps) simp

lemma forEach_product_done:
  "\<not> i < length m \<Longrightarrow> forEach_product cid i m = Returned m"
  by (subst forEach_product.simps) simp

lemma forEach_product_clean:
  "forEach_product cid i m = Returned m' \<Longrightarrow>
   (\<forall>j < i. j < length m \<longrightarrow> \<not> references (snd (m ! j)) cid) \<Longrightarrow>
   (\<forall>e \<in> set m'. \<not> references (snd e) cid)"
proof (induction cid i m rule: forEach_product.induct)
  case (1 cid i m)
  show ?case
  proof (cases "i < length m")
    case False
    with "1.prems"(1) have "m' = m" by (simp add: forEach_product_done)
    show ?thesis
    proof
      fix e assume "e \<in> set m'"
      with \<open>m' = m\<close> obtain j where j: "j < length m" and e: "e = m ! j"
        by (auto simp: in_set_conv_nth)
      from j False have "j < i" by simp
      with "1.prems"(2) j e show "\<not> references (snd e) cid" by simp
    qed
  next
    case True
    show ?thesis
    proof (cases "product_categoryIds (snd (m ! i))")
      case None
      with True "1.prems"(1) show ?thesis by (simp add: forEach_product_throw)
    next
      case (Some ids)
      let ?p = "(snd (m ! i))\<lparr>product_categoryIds := Some (filter (\<lambda>categoryId. categoryId \<noteq> cid) ids)\<rparr>"
      let ?m1 = "m[i := (fst (m ! i), ?p)]"
      let ?m2 = "Map_set (product_id (snd (m ! i))) ?p ?m1"
      have clean: "\<not> references ?p cid" by (simp add: references_def)
      have run: "forEach_product cid (Suc i) ?m2 = Returned m'"
        using "1.prems"(1) forEach_product_step [OF True Some, of cid] by simp
      have inv: "\<forall>j < Suc i. j < length ?m2 \<longrightarrow> \<not> references (snd (?m2 ! j)) cid"
      proof (intro allI impI)
        fix j assume j: "j < Suc i" and "j < length ?m2"
        from j True have jm: "j < length ?m1" by simp
        have old: "\<not> references (snd (?m1 ! j)) cid"
        proof (cases "j = i")
          case True
          with jm show ?thesis using clean by simp
        next
          case False
          with j have "j < i" by simp
          with "1.prems"(2) jm False show ?thesis by simp
        qed
        from Map_set_nth [OF jm, of "product_id (snd (m ! i))" ?p] old clean
        show "\<not> references (snd (?m2 ! j)) cid" by auto
      qed
      from "1.IH" [OF True Some run inv] show ?thesis .
    qed
  qed
qed

lemma forEach_product_returns:
  "(\<forall>e \<in> set m. product_categoryIds (snd e) \<noteq> None) \<Longrightarrow> \<exists>m'. forEach_product cid i m = Returned m'"
proof (induction cid i m rule: forEach_product.induct)
  case (1 cid i m)
  show ?case
  proof (cases "i < length m")
    case False
    then show ?thesis by (simp add: forEach_product_done)
  next
    case True
    then have "snd (m ! i) \<in> snd ` set m" by (metis nth_mem image_eqI)
    with "1.prems" obtain ids where Some: "product_categoryIds (snd (m ! i)) = Some ids" by auto
    let ?p = "(snd (m ! i))\<lparr>product_categoryIds := Some (filter (\<lambda>categoryId. categoryId \<noteq> cid) ids)\<rparr>"
    let ?m1 = "m[i := (fst (m ! i), ?p)]"
    let ?m2 = "Map_set (product_id (snd (m ! i))) ?p ?m1"
    have "\<forall>e \<in> set ?m2. product_categoryIds (snd e) \<noteq> None"
    proof
      fix e assume "e \<in> set ?m2"
      then have "snd e \<in> set (map snd ?m2)" by simp
      with values_Map_set_present [of "product_id (snd (m ! i))" ?p ?m1]
      have "snd e = ?p \<or> snd e \<in> set (map snd ?m1)" by blast
      then show "product_categoryIds (snd e) \<noteq> None"
      proof
        assume "snd e = ?p"
        then show ?thesis by simp
      next
        assume "snd e \<in> set (map snd ?m1)"
        then obtain e' where e': "e' \<in> set ?m1" and s: "snd e = snd e'" by auto
        from e' set_update_subset_insert [of m i "(fst (m ! i), ?p)"]
        have "e' = (fst (m ! i), ?p) \<or> e' \<in> set m" by blast
        with s "1.prems" show ?thesis by auto
      qed
    qed
    from "1.IH" [OF True Some this] forEach_product_step [OF True Some, of cid]
    show ?thesis by simp
  qed
qed

lemma Map_set_same:
  assumes d: "distinct (map fst m)" and i: "i < length m" and e: "m ! i = (k, v)"
  shows "Map_set k v m = m"
proof -
  from i e have in_m: "(k, v) \<in> set m" by (metis nth_mem)
  then have present: "k \<in> set (map fst m)" by force
  have "map (\<lambda>(k', v'). if k' = k then (k', v) else (k', v')) m = m"
  proof (rule map_idI)
    fix x assume x: "x \<in> set m"
    obtain k' v' where kv: "x = (k', v')" by (cases x)
    show "(case x of (k', v') \<Rightarrow> if k' = k then (k', v) else (k', v')) = x"
    proof (cases "k' = k")
      case True
      with x kv in_m d have "v' = v" by (metis eq_key_imp_eq_value)
      with True kv show ?thesis by simp
    next
      case False
      with kv show ?thesis by simp
    qed
  qed
  with present show ?thesis by (simp add: Map_set_def)
qed

lemma forEach_product_exact:
  "own_ids m \<Longrightarrow> list_all (\<lambda>e. product_categoryIds (snd e) \<noteq> None) m \<Longrightarrow>
   forEach_product cid i m = Returned (take i m @ map (strip_category cid) (drop i m))"
proof (induction cid i m rule: forEach_product.induct)
  case (1 cid i m)
  show ?case
  proof (cases "i < length m")
    case False
    then show ?thesis by (simp add: forEach_product_done)
  next
    case True
    obtain k p where e: "m ! i = (k, p)" by (cases "m ! i")
    from True e have in_m: "(k, p) \<in> set m" by (metis nth_mem)
    from in_m "1.prems"(1) have id: "product_id p = k"
      by (force simp: own_ids_def list_all_iff)
    from in_m "1.prems"(2) have "product_categoryIds p \<noteq> None"
      by (force simp: list_all_iff)
    then obtain ids where ids: "product_categoryIds p = Some ids" by blast
    let ?p = "p\<lparr>product_categoryIds := Some (filter (\<lambda>categoryId. categoryId \<noteq> cid) ids)\<rparr>"
    let ?m1 = "m[i := (k, ?p)]"
    have keys1: "map fst ?m1 = map fst m"
      using True e keys_list_update [of i m ?p] by simp
    have d1: "distinct (map fst ?m1)" using "1.prems"(1) by (simp add: keys1 own_ids_def)
    have set1: "set ?m1 \<subseteq> insert (k, ?p) (set m)" by (rule set_update_subset_insert)
    have own1: "own_ids ?m1"
      using d1 set1 "1.prems"(1) id by (auto simp: own_ids_def list_all_iff)
    have def1: "list_all (\<lambda>e. product_categoryIds (snd e) \<noteq> None) ?m1"
      using set1 "1.prems"(2) by (auto simp: list_all_iff)
    have same: "Map_set k ?p ?m1 = ?m1"
      using d1 True by (intro Map_set_same [of _ i]) simp_all
    have step: "forEach_product cid i m = forEach_product cid (Suc i) ?m1"
      using forEach_product_step [OF True, of ids cid] e ids id same by simp
    have strip: "strip_category cid (k, p) = (k, ?p)"
      by (simp add: strip_category_def ids)
    have "forEach_product cid (Suc i) ?m1
        = Returned (take (Suc i) ?m1 @ map (strip_category cid) (drop (Suc i) ?m1))"
      using "1.IH" [OF True, of ids] e ids id same own1 def1 by simp
    also have "take (Suc i) ?m1 = take i m @ [(k, ?p)]"
      using True by (simp add: take_Suc_conv_app_nth)
    also have "drop (Suc i) ?m1 = drop (Suc i) m" by simp
    also have "(take i m @ [(k, ?p)]) @ map (strip_category cid) (drop (Suc i) m)
        = take i m @ map (strip_category cid) (drop i m)"
      using True e strip by (simp add: Cons_nth_drop_Suc [symmetric])
    finally show ?thesis using step by simp
  qed
qed

text \<open>
  On a store that keeps to its discipline and whose products all have their
  categoryIds, the visit changes nothing but the categoryIds: no product is added,
  removed or moved.
\<close>

lemma removeCategory_exact:
  assumes "own_ids (products s)"
    and "list_all (\<lambda>e. product_categoryIds (snd e) \<noteq> None) (products s)"
  shows "removeCategory cid s =
     Returned (s\<lparr>categories := Map_delete cid (categories s),
                 products := map (strip_category cid) (products s)\<rparr>)"
  using forEach_product_exact [OF assms, of cid 0]
  by (simp add: removeCategory_def Let_def)

lemma Map_get_Map_delete: "Map_get (Map_delete k m) k = None"
  by (induction m) (auto simp: Map_get_def Map_delete_def)

lemma Map_get_in_set: "Map_get m k = Some v \<Longrightarrow> (k, v) \<in> set m"
  by (simp add: Map_get_def map_of_SomeD)

text \<open>
  C2. When \<open>removeCategory cid\<close> returns, no product that \<open>listProducts\<close> lists
  and no product that \<open>getProduct\<close> finds has \<open>cid\<close> among its categoryIds, and
  the category itself is gone. The call is one step of the store: the state it
  returns is the only one a caller sees. On a store where every product has its list
  of categoryIds (as the type \<open>Product\<close> requires) the call does return; where a
  product's categoryIds are \<open>undefined\<close> the callback throws a TypeError and the
  call does not return.
\<close>

theorem removeCategory_cascade:
  "(removeCategory cid s = Returned s' \<longrightarrow>
      (\<forall>p \<in> set (listProducts s'). \<not> references p cid)
      \<and> (\<forall>pid p. getProduct s' pid = Some p \<longrightarrow> \<not> references p cid)
      \<and> getCategory s' cid = None)
   \<and> ((\<forall>p \<in> set (listProducts s). product_categoryIds p \<noteq> None) \<longrightarrow>
        (\<exists>s''. removeCategory cid s = Returned s''))"
proof (intro conjI impI)
  assume r: "removeCategory cid s = Returned s'"
  then obtain m' where run: "forEach_product cid 0 (products s) = Returned m'"
    and s': "s' = s\<lparr>categories := Map_delete cid (categories s), products := m'\<rparr>"
    by (auto simp: removeCategory_def Let_def split: outcome.splits)
  from forEach_product_clean [OF run] have clean: "\<forall>e \<in> set m'. \<not> references (snd e) cid"
    by simp
  show "\<forall>p \<in> set (listProducts s'). \<not> references p cid"
    using clean by (auto simp: s' listProducts_def Map_values_def)
  show "\<forall>pid p. getProduct s' pid = Some p \<longrightarrow> \<not> references p cid"
    using clean by (auto simp: s' getProduct_def dest!: Map_get_in_set)
  show "getCategory s' cid = None"
    by (simp add: s' getCategory_def Map_get_Map_delete)
next
  assume "\<forall>p \<in> set (listProducts s). product_categoryIds p \<noteq> None"
  then have "\<forall>e \<in> set (products s). product_categoryIds (snd e) \<noteq> None"
    by (simp add: listProducts_def Map_values_def)
  from forEach_product_returns [OF this, of cid 0]
  show "\<exists>s''. removeCategory cid s = Returned s''"
    by (auto simp: removeCategory_def Let_def)
qed

lemma removeCategory_demo:
  "removeCategory ''c1'' demo_store =
   Returned (demo_store\<lparr>categories := [(''c2'', accessories)],
      products := [(''p1'', shirt\<lparr>product_categoryIds := Some []\<rparr>),
                   (''p2'', bag\<lparr>product_categoryIds := Some [''c2'']\<rparr>)]\<rparr>)"
  by (simp add: removeCategory_def demo_store_def Map_delete_def Map_set_def shirt_def bag_def
      forEach_product.simps)

theorem removeCategory_cascade_witness:
  "removeCategory ''c1'' demo_store =
     Returned (demo_store\<lparr>categories := [(''c2'', accessories)],
        products := [(''p1'', shirt\<lparr>product_categoryIds := Some []\<rparr>),
                     (''p2'', bag\<lparr>product_categoryIds := Some [''c2'']\<rparr>)]\<rparr>)
   \<and> references shirt ''c1'' \<and> references bag ''c1''
   \<and> list_all (\<lambda>p. \<not> references p ''c1'')
        (listProducts (demo_store\<lparr>categories := [(''c2'', accessories)],
        products := [(''p1'', shirt\<lparr>product_categoryIds := Some []\<rparr>),
                     (''p2'', bag\<lparr>product_categoryIds := Some [''c2'']\<rparr>)]\<rparr>))
   \<and> getCategory (demo_store\<lparr>categories := [(''c2'', accessories)],
        products := [(''p1'', shirt\<lparr>product_categoryIds := Some []\<rparr>),
                     (''p2'', bag\<lparr>product_categoryIds := Some [''c2'']\<rparr>)]\<rparr>) ''c1'' = None
   \<and> list_all (\<lambda>p. product_categoryIds p \<noteq> None) (listProducts demo_store)"
  using removeCategory_cascade [of "''c1''" demo_store
      "demo_store\<lparr>categories := [(''c2'', accessories)],
        products := [(''p1'', shirt\<lparr>product_categoryIds := Some []\<rparr>),
                     (''p2'', bag\<lparr>product_categoryIds := Some [''c2'']\<rparr>)]\<rparr>"]
    removeCategory_demo
  by (simp add: list_all_iff) (simp add: references_def shirt_def bag_def demo_store_def listProducts_def Map_values_def)

subsection \<open>Partial updates and slugs\<close>

lemma Map_get_Map_set: "Map_get (Map_set k v m) k = Some v"
proof (cases "k \<in> set (map fst m)")
  case True
  then have "map_of (map (\<lambda>(k', v'). if k' = k then (k', v) else (k', v')) m) k = Some v"
    by (induction m) (auto split: prod.splits)
  with True show ?thesis by (simp add: Map_get_def Map_set_def)
next
  case False
  then have "map_of m k = None" by (simp add: map_of_eq_None_iff)
  with False show ?thesis by (simp add: Map_get_def Map_set_def map_add_def)
qed

lemma slugify_examples:
  "slugify ''Custom Slug'' = ''custom-slug''"
  "slugify ''Shoes'' = ''shoes''"
  "slugify ''New Name'' = ''new-name''"
  "slugify ''New Shirt'' = ''new-shirt''"
  "slugify ''Our Story'' = ''our-story''"
  by code_simp+

text \<open>
  C3, as the code has it. In \<open>updateProduct\<close> and \<open>updatePage\<close> an update whose
  slug is a non-empty string makes the slug of the resulting entity (returned and
  stored) the Slug Generator's result on that string, whatever name or title the same
  update supplies. \<open>updateCategory\<close> has no slug override: a non-empty name in the
  update makes the slug the Slug Generator's result on the name; otherwise the slug is
  what the spread left, that is the supplied slug as it was given, not normalised, or
  the stored slug when the update has no slug key.
\<close>

theorem explicit_slug_wins:
  "(getProduct s pid = Some product \<and> pu_slug pu = Present (Some g) \<and> g \<noteq> [] \<longrightarrow>
      (\<exists>updated. fst (updateProduct pid pu s) = Some updated
         \<and> getProduct (snd (updateProduct pid pu s)) pid = Some updated
         \<and> product_slug updated = Some (slugify g)))
   \<and> (Map_get (pages s) gid = Some page \<and> gu_slug gu = Present (Some h) \<and> h \<noteq> [] \<longrightarrow>
      (\<exists>updated. fst (updatePage gid gu s) = Some updated
         \<and> Map_get (pages (snd (updatePage gid gu s))) gid = Some updated
         \<and> page_slug updated = Some (slugify h)))
   \<and> (getCategory s cid = Some category \<longrightarrow>
      (\<exists>updated. fst (updateCategory cid cu s) = Some updated
         \<and> getCategory (snd (updateCategory cid cu s)) cid = Some updated
         \<and> category_slug updated =
             (case read (cu_name cu) of
                None \<Rightarrow> spread (category_slug category) (cu_slug cu)
              | Some n \<Rightarrow> if n \<noteq> [] then Some (slugify n)
                          else spread (category_slug category) (cu_slug cu))))"
proof (intro conjI impI)
  assume "getProduct s pid = Some product \<and> pu_slug pu = Present (Some g) \<and> g \<noteq> []"
  then show "\<exists>updated. fst (updateProduct pid pu s) = Some updated
         \<and> getProduct (snd (updateProduct pid pu s)) pid = Some updated
         \<and> product_slug updated = Some (slugify g)"
    by (auto simp: updateProduct_def getProduct_def Let_def Map_get_Map_set split: option.splits)
next
  assume "Map_get (pages s) gid = Some page \<and> gu_slug gu = Present (Some h) \<and> h \<noteq> []"
  then show "\<exists>updated. fst (updatePage gid gu s) = Some updated
         \<and> Map_get (pages (snd (updatePage gid gu s))) gid = Some updated
         \<and> page_slug updated = Some (slugify h)"
    by (auto simp: updatePage_def Let_def Map_get_Map_set split: option.splits)
next
  assume "getCategory s cid = Some category"
  then show "\<exists>updated. fst (updateCategory cid cu s) = Some updated
         \<and> getCategory (snd (updateCategory cid cu s)) cid = Some updated
         \<and> category_slug updated =
             (case read (cu_name cu) of
                None \<Rightarrow> spread (category_slug category) (cu_slug cu)
              | Some n \<Rightarrow> if n \<noteq> [] then Some (slugify n)
                          else spread (category_slug category) (cu_slug cu))"
    by (auto simp: updateCategory_def getCategory_def Let_def Map_get_Map_set split: option.splits)
qed

theorem explicit_slug_wins_witness:
  "map_option product_slug (fst (updateProduct ''p1''
      (no_product_update\<lparr>pu_name := Present (Some ''New Shirt''),
                          pu_slug := Present (Some ''Custom Slug'')\<rparr>) demo_store))
     = Some (Some ''custom-slug'')
   \<and> map_option page_slug (fst (updatePage ''g1''
      (no_page_update\<lparr>gu_title := Present (Some ''Our Story''),
                       gu_slug := Present (Some ''Custom Slug'')\<rparr>) demo_store))
     = Some (Some ''custom-slug'')
   \<and> map_option category_slug (fst (updateCategory ''c1''
      (no_category_update\<lparr>cu_name := Present (Some ''Shoes'')\<rparr>) demo_store))
     = Some (Some ''shoes'')"
  using explicit_slug_wins [of demo_store "''p1''" shirt
      "no_product_update\<lparr>pu_name := Present (Some ''New Shirt''),
                          pu_slug := Present (Some ''Custom Slug'')\<rparr>" "''Custom Slug''"
      "''g1''" about
      "no_page_update\<lparr>gu_title := Present (Some ''Our Story''),
                       gu_slug := Present (Some ''Custom Slug'')\<rparr>" "''Custom Slug''"
      "''c1''" apparel "no_category_update\<lparr>cu_name := Present (Some ''Shoes'')\<rparr>"]
  by (auto simp: getProduct_def getCategory_def Map_get_def demo_store_def no_product_update_def
      no_page_update_def no_category_update_def slugify_examples)

text \<open>
  C3 as stated fails for categories: with a name and a slug in the same update the
  name wins, and a slug supplied alone is stored without normalisation.
\<close>

theorem explicit_slug_wins_counterexample:
  "map_option category_slug (fst (updateCategory ''c1''
      (no_category_update\<lparr>cu_name := Present (Some ''Shoes''),
                           cu_slug := Present (Some ''Custom Slug'')\<rparr>) demo_store))
     = Some (Some ''shoes'')
   \<and> map_option category_slug (fst (updateCategory ''c1''
      (no_category_update\<lparr>cu_slug := Present (Some ''Custom Slug'')\<rparr>) demo_store))
     = Some (Some ''Custom Slug'')
   \<and> slugify ''Custom Slug'' = ''custom-slug''"
  by (simp add: updateCategory_def Map_get_def demo_store_def no_category_update_def apparel_def
      Let_def slugify_examples)

text \<open>
  C10, as the code has it. In each of the four update operations every key other than
  \<open>slug\<close> behaves as the spread does: present with the value \<open>undefined\<close> it
  clears the stored field, absent it leaves the stored field as it was. The slug key
  behaves the same way as long as the update carries no non-empty name (or title) and,
  for products and pages, no non-empty slug; otherwise the slug is recomputed, as C3
  describes. The id is never changed.
\<close>

theorem partial_update_merge:
  "(getCategory s cid = Some category \<longrightarrow>
      (\<exists>updated. fst (updateCategory cid cu s) = Some updated
         \<and> getCategory (snd (updateCategory cid cu s)) cid = Some updated
         \<and> category_id updated = category_id category
         \<and> category_name updated = spread (category_name category) (cu_name cu)
         \<and> category_description updated = spread (category_description category) (cu_description cu)
         \<and> category_parentId updated = spread (category_parentId category) (cu_parentId cu)
         \<and> (\<not> truthy (read (cu_name cu)) \<longrightarrow>
              category_slug updated = spread (category_slug category) (cu_slug cu))))
   \<and> (getProduct s pid = Some product \<longrightarrow>
      (\<exists>updated. fst (updateProduct pid pu s) = Some updated
         \<and> getProduct (snd (updateProduct pid pu s)) pid = Some updated
         \<and> product_id updated = product_id product
         \<and> product_name updated = spread (product_name product) (pu_name pu)
         \<and> product_description updated = spread (product_description product) (pu_description pu)
         \<and> product_price updated = spread (product_price product) (pu_price pu)
         \<and> product_currency updated = spread (product_currency product) (pu_currency pu)
         \<and> product_media updated = spread (product_media product) (pu_media pu)
         \<and> product_additionalInfo updated =
             spread (product_additionalInfo product) (pu_additionalInfo pu)
         \<and> product_categoryIds updated = spread (product_categoryIds product) (pu_categoryIds pu)
         \<and> product_customTemplate updated =
             spread (product_customTemplate product) (pu_customTemplate pu)
         \<and> (\<not> truthy (read (pu_name pu)) \<and> \<not> truthy (read (pu_slug pu)) \<longrightarrow>
              product_slug updated = spread (product_slug product) (pu_slug pu))))
   \<and> (Map_get (pages s) gid = Some page \<longrightarrow>
      (\<exists>updated. fst (updatePage gid gu s) = Some updated
         \<and> Map_get (pages (snd (updatePage gid gu s))) gid = Some updated
         \<and> page_id updated = page_id page
         \<and> page_title updated = spread (page_title page) (gu_title gu)
         \<and> page_content updated = spread (page_content page) (gu_content gu)
         \<and> page_template updated = spread (page_template page) (gu_template gu)
         \<and> (\<not> truthy (read (gu_title gu)) \<and> \<not> truthy (read (gu_slug gu)) \<longrightarrow>
              page_slug updated = spread (page_slug page) (gu_slug gu))))
   \<and> getSettings (snd (updateSettings su s)) = fst (updateSettings su s)
   \<and> headerHtml (fst (updateSettings su s)) = spread (headerHtml (getSettings s)) (su_headerHtml su)
   \<and> footerHtml (fst (updateSettings su s)) = spread (footerHtml (getSettings s)) (su_footerHtml su)
   \<and> paymentGateways (fst (updateSettings su s)) =
       spread (paymentGateways (getSettings s)) (su_paymentGateways su)
   \<and> spread old (Present None) = None
   \<and> spread old Absent = old"
proof (intro conjI impI)
  assume "getCategory s cid = Some category"
  then show "\<exists>updated. fst (updateCategory cid cu s) = Some updated
         \<and> getCategory (snd (updateCategory cid cu s)) cid = Some updated
         \<and> category_id updated = category_id category
         \<and> category_name updated = spread (category_name category) (cu_name cu)
         \<and> category_description updated = spread (category_description category) (cu_description cu)
         \<and> category_parentId updated = spread (category_parentId category) (cu_parentId cu)
         \<and> (\<not> truthy (read (cu_name cu)) \<longrightarrow>
              category_slug updated = spread (category_slug category) (cu_slug cu))"
    by (auto simp: updateCategory_def getCategory_def Let_def Map_get_Map_set split: option.splits)
next
  assume "getProduct s pid = Some product"
  then show "\<exists>updated. fst (updateProduct pid pu s) = Some updated
         \<and> getProduct (snd (updateProduct pid pu s)) pid = Some updated
         \<and> product_id updated = product_id product
         \<and> product_name updated = spread (product_name product) (pu_name pu)
         \<and> product_description updated = spread (product_description product) (pu_description pu)
         \<and> product_price updated = spread (product_price product) (pu_price pu)
         \<and> product_currency updated = spread (product_currency product) (pu_currency pu)
         \<and> product_media updated = spread (product_media product) (pu_media pu)
         \<and> product_additionalInfo updated =
             spread (product_additionalInfo product) (pu_additionalInfo pu)
         \<and> product_categoryIds updated = spread (product_categoryIds product) (pu_categoryIds pu)
         \<and> product_customTemplate updated =
             spread (product_customTemplate product) (pu_customTemplate pu)
         \<and> (\<not> truthy (read (pu_name pu)) \<and> \<not> truthy (read (pu_slug pu)) \<longrightarrow>
              product_slug updated = spread (product_slug product) (pu_slug pu))"
    by (auto simp: updateProduct_def getProduct_def Let_def Map_get_Map_set split: option.splits)
next
  assume "Map_get (pages s) gid = Some page"
  then show "\<exists>updated. fst (updatePage gid gu s) = Some updated
         \<and> Map_get (pages (snd (updatePage gid gu s))) gid = Some updated
         \<and> page_id updated = page_id page
         \<and> page_title updated = spread (page_title page) (gu_title gu)
         \<and> page_content updated = spread (page_content page) (gu_content gu)
         \<and> page_template updated = spread (page_template page) (gu_template gu)
         \<and> (\<not> truthy (read (gu_title gu)) \<and> \<not> truthy (read (gu_slug gu)) \<longrightarrow>
              page_slug updated = spread (page_slug page) (gu_slug gu))"
    by (auto simp: updatePage_def Let_def Map_get_Map_set split: option.splits)
qed (simp_all add: updateSettings_def getSettings_def Let_def)

theorem partial_update_merge_witness:
  "map_option category_parentId (fst (updateCategory ''c2''
      (no_category_update\<lparr>cu_parentId := Present None\<rparr>) demo_store)) = Some None
   \<and> category_parentId accessories = Some ''c1''
   \<and> map_option category_name (fst (updateCategory ''c2''
      (no_category_update\<lparr>cu_parentId := Present None\<rparr>) demo_store)) = Some (Some ''Accessories'')
   \<and> map_option category_slug (fst (updateCategory ''c2''
      (no_category_update\<lparr>cu_parentId := Present None\<rparr>) demo_store)) = Some (Some ''accessories'')
   \<and> map_option product_description (fst (updateProduct ''p1''
      (no_product_update\<lparr>pu_description := Present None\<rparr>) demo_store)) = Some None
   \<and> map_option product_slug (fst (updateProduct ''p1''
      (no_product_update\<lparr>pu_description := Present None\<rparr>) demo_store))
       = Some (Some ''organic-cotton-t-shirt'')
   \<and> map_option page_content (fst (updatePage ''g1''
      (no_page_update\<lparr>gu_content := Present None\<rparr>) demo_store)) = Some None
   \<and> map_option page_slug (fst (updatePage ''g1''
      (no_page_update\<lparr>gu_content := Present None\<rparr>) demo_store)) = Some (Some ''about-our-craft'')
   \<and> footerHtml (fst (updateSettings (no_settings_update\<lparr>su_footerHtml := Present None\<rparr>)
        demo_store)) = None
   \<and> headerHtml (fst (updateSettings (no_settings_update\<lparr>su_footerHtml := Present None\<rparr>)
        demo_store)) = Some ''My Storefront''"
  using partial_update_merge [of demo_store "''c2''" accessories
      "no_category_update\<lparr>cu_parentId := Present None\<rparr>"
      "''p1''" shirt "no_product_update\<lparr>pu_description := Present None\<rparr>"
      "''g1''" about "no_page_update\<lparr>gu_content := Present None\<rparr>"
      "no_settings_update\<lparr>su_footerHtml := Present None\<rparr>"]
  by (auto simp: getProduct_def getCategory_def getSettings_def Map_get_def demo_store_def
      no_product_update_def no_page_update_def no_category_update_def no_settings_update_def
      accessories_def shirt_def about_def)

text \<open>
  C10 as stated fails for the slug key: with a non-empty name in the update, a slug
  key bound to \<open>undefined\<close> does not clear the slug, and an absent slug key does
  not leave it unchanged; the slug is recomputed from the name.
\<close>

theorem partial_update_merge_counterexample:
  "map_option category_slug (fst (updateCategory ''c1''
      (no_category_update\<lparr>cu_name := Present (Some ''New Name''), cu_slug := Present None\<rparr>)
      demo_store)) = Some (Some ''new-name'')
   \<and> map_option category_slug (fst (updateCategory ''c1''
      (no_category_update\<lparr>cu_name := Present (Some ''New Name'')\<rparr>) demo_store))
       = Some (Some ''new-name'')
   \<and> category_slug apparel = Some ''apparel''"
  by (simp add: updateCategory_def Map_get_def demo_store_def no_category_update_def apparel_def
      Let_def slugify_examples)

section \<open>The cart service\<close>

subsection \<open>The quantity requested\<close>

text \<open>
  When the field converts to a string, the quantity is what \<^verbatim>\<open>parseInt\<close> reads if
  that is greater than 1, and 1 otherwise: NaN, zero and the negative numbers become
  1. When the conversion throws, so does the reading of the quantity.
\<close>

lemma Math_max_1: "Math_max (Fin 1) (if num_truthy n then n else Fin 1) = (if num_gt n (Fin 1) then n else Fin 1)"
  by (cases n) auto

lemma requested_quantity_eq:
  "ToString (if quantityRaw = FUndefined then FString ''1'' else quantityRaw) = Inr input \<Longrightarrow>
   requested_quantity quantityRaw =
     Inr (if num_gt (parseInt input) (Fin 1) then parseInt input else Fin 1)"
  by (simp add: requested_quantity_def Math_max_1)

lemma requested_quantity_throws:
  "ToString (if quantityRaw = FUndefined then FString ''1'' else quantityRaw) = Inl e \<Longrightarrow>
   requested_quantity quantityRaw = Inl e"
  by (simp add: requested_quantity_def)

lemma requested_quantity_ge_1: "requested_quantity quantityRaw = Inr n \<Longrightarrow> num_le (Fin 1) n"
proof -
  have "num_le (Fin 1) (if num_gt m (Fin 1) then m else Fin 1)" for m
    by (cases m) (auto simp: num_le_def)
  then show "requested_quantity quantityRaw = Inr n \<Longrightarrow> num_le (Fin 1) n"
    by (auto simp: requested_quantity_def Math_max_1 split: sum.splits)
qed

lemma requested_quantity_double: "requested_quantity quantityRaw = Inr n \<Longrightarrow> is_double n"
proof -
  have "is_double (if num_gt (parseInt input) (Fin 1) then parseInt input else Fin 1)" for input
    by (simp add: is_double_parseInt is_double_small)
  then show "requested_quantity quantityRaw = Inr n \<Longrightarrow> is_double n"
    by (auto simp: requested_quantity_def Math_max_1 split: sum.splits)
qed

lemma parseInt_examples:
  "parseInt ''2'' = Fin 2"
  "parseInt '' 42abc'' = Fin 42"
  "parseInt ''-7'' = Fin (- 7)"
  "parseInt ''+5'' = Fin 5"
  "parseInt ''abc'' = NaN"
  "parseInt '''' = NaN"
  "parseInt ''0'' = Fin 0"
  "parseInt ''1.9'' = Fin 1"
  "parseInt ''9007199254740993'' = Fin 9007199254740992"
  by (simp_all add: parseInt_def is_space_def is_digit_def decimal_def double_eval)

lemma requested_quantity_examples:
  "requested_quantity (FString ''2'') = Inr (Fin 2)"
  "requested_quantity (FString ''3'') = Inr (Fin 3)"
  "requested_quantity (FString ''1'') = Inr (Fin 1)"
  "requested_quantity (FString ''abc'') = Inr (Fin 1)"
  "requested_quantity (FString ''0'') = Inr (Fin 1)"
  "requested_quantity (FString ''-4'') = Inr (Fin 1)"
  "requested_quantity FUndefined = Inr (Fin 1)"
  "requested_quantity (FArray [FString ''3'', FString ''4'']) = Inr (Fin 3)"
  "requested_quantity (FObject [(''a'', FString ''7'')]) = Inr (Fin 1)"
  "requested_quantity (FObject [(''toString'', FString ''x'')]) = Inl TypeError"
  "requested_quantity (FArray [FObject [(''toString'', FString ''x'')]]) = Inl TypeError"
  by (simp_all add: requested_quantity_def parseInt_def is_space_def is_digit_def decimal_def
      double_eval)

subsection \<open>The store's discipline\<close>

text \<open>
  A product found under a key has that key as its id in every store that keeps to its
  discipline; the example store does, and \<open>updateProduct\<close>, \<open>removeProduct\<close>
  and \<open>removeCategory\<close> keep a store to it.
\<close>

lemma own_ids_getProduct:
  "own_ids (products s) \<Longrightarrow> getProduct s pid = Some product \<Longrightarrow> product_id product = pid"
  by (auto simp: own_ids_def getProduct_def Map_get_def list_all_iff dest!: map_of_SomeD)

lemma own_ids_demo_store: "own_ids (products demo_store)"
  by (simp add: own_ids_def demo_store_def shirt_def bag_def)

lemma own_ids_Map_set:
  assumes "own_ids m" and "product_id p = k"
  shows "own_ids (Map_set k p m)"
proof (cases "k \<in> set (map fst m)")
  case True
  then have "map fst (Map_set k p m) = map fst m"
    by (rule keys_Map_set_present)
  moreover have "product_id (snd e) = fst e" if "e \<in> set (Map_set k p m)" for e
    using that assms True by (auto simp: Map_set_def own_ids_def list_all_iff split: if_splits)
  ultimately show ?thesis
    using assms(1) by (simp add: own_ids_def list_all_iff)
next
  case False
  then show ?thesis
    using assms by (simp add: Map_set_def own_ids_def)
qed

lemma own_ids_updateProduct:
  "own_ids (products s) \<Longrightarrow> own_ids (products (snd (updateProduct pid update s)))"
proof (cases "Map_get (products s) pid")
  case None
  then show "own_ids (products s) \<Longrightarrow> ?thesis" by (simp add: updateProduct_def)
next
  case (Some product)
  assume own: "own_ids (products s)"
  from own Some have "product_id product = pid"
    by (auto simp: own_ids_def Map_get_def list_all_iff dest!: map_of_SomeD)
  with own Some show ?thesis
    by (auto simp: updateProduct_def Let_def intro!: own_ids_Map_set split: option.splits)
qed

lemma own_ids_removeProduct:
  assumes "own_ids (products s)"
  shows "own_ids (products (removeProduct pid s))"
proof -
  from assms have "distinct (map fst (filter (\<lambda>(k', v'). k' \<noteq> pid) (products s)))"
    unfolding own_ids_def by (intro distinct_map_filter) simp
  with assms show ?thesis
    by (simp add: own_ids_def removeProduct_def Map_delete_def list_all_iff)
qed

lemma own_ids_removeCategory:
  assumes "own_ids (products s)"
    and "list_all (\<lambda>e. product_categoryIds (snd e) \<noteq> None) (products s)"
  shows "\<exists>s'. removeCategory cid s = Returned s' \<and> own_ids (products s')"
proof -
  have "fst \<circ> strip_category cid = fst"
    by (rule ext) (simp add: strip_category_def)
  with assms(1) have "own_ids (map (strip_category cid) (products s))"
    by (simp add: own_ids_def list_all_iff strip_category_def)
  then show ?thesis
    by (simp add: removeCategory_exact [OF assms])
qed

lemma demo_products:
  "getProduct demo_store ''p1'' = Some shirt"
  "getProduct demo_store ''p2'' = Some bag"
  "getProduct demo_store ''missing-id'' = None"
  "product_id shirt = ''p1''"
  "product_id bag = ''p2''"
  by (simp_all add: getProduct_def Map_get_def demo_store_def shirt_def bag_def)

subsection \<open>Adding to the cart\<close>

text \<open>\<open>increment\<close> updates the first item of the product, in place.\<close>

lemma increment_as_update:
  "\<exists>item \<in> set items. productId item = pid \<Longrightarrow>
   increment pid q items =
     items[length (takeWhile (\<lambda>item. productId item \<noteq> pid) items) :=
       (items ! length (takeWhile (\<lambda>item. productId item \<noteq> pid) items))
         \<lparr>quantity := num_add (quantity (items ! length (takeWhile (\<lambda>item. productId item \<noteq> pid) items))) q\<rparr>]"
  by (induction items) auto

text \<open>
  What the handler does when it does not throw. For a productId under which the store
  holds a product: the requested quantity is what \<^verbatim>\<open>parseInt\<close> reads, if that is
  greater than 1, and 1 otherwise, so NaN, zero and negative numbers become 1; if the
  cart has an item for the product's id, the first such item has the requested
  quantity added to its own, as doubles add, and the list keeps its length and its
  other items; otherwise one item with the product's id and the requested quantity is
  appended. The product's id is the productId asked for in every store that keeps to
  its discipline.
\<close>

lemma addItem_returns:
  assumes "getProduct s pid = Some product" and "requested_quantity quantityRaw = Inr requested"
  shows "(\<exists>item \<in> set items. productId item = product_id product) \<Longrightarrow>
         addItem items (FString pid) quantityRaw s =
           Inr (Some (items[length (takeWhile (\<lambda>item. productId item \<noteq> product_id product) items) :=
             (items ! length (takeWhile (\<lambda>item. productId item \<noteq> product_id product) items))
               \<lparr>quantity :=
                  num_add (quantity (items ! length (takeWhile (\<lambda>item. productId item \<noteq> product_id product) items)))
                    requested\<rparr>]))"
    and "(\<forall>item \<in> set items. productId item \<noteq> product_id product) \<Longrightarrow>
         addItem items (FString pid) quantityRaw s =
           Inr (Some (items @ [\<lparr>productId = product_id product, quantity = requested\<rparr>]))"
    and "num_le (Fin 1) requested"
    and "num_add (Fin a) (Fin b) = to_double (a + b)"
proof -
  show "addItem items (FString pid) quantityRaw s =
           Inr (Some (items[length (takeWhile (\<lambda>item. productId item \<noteq> product_id product) items) :=
             (items ! length (takeWhile (\<lambda>item. productId item \<noteq> product_id product) items))
               \<lparr>quantity :=
                  num_add (quantity (items ! length (takeWhile (\<lambda>item. productId item \<noteq> product_id product) items)))
                    requested\<rparr>]))"
    if ex: "\<exists>item \<in> set items. productId item = product_id product"
  proof -
    from ex obtain x where "find (\<lambda>item. productId item = product_id product) items = Some x"
      by (cases "find (\<lambda>item. productId item = product_id product) items") (auto simp: find_None_iff)
    with assms show ?thesis
      by (simp add: addItem_def increment_as_update [OF ex])
  qed
  show "addItem items (FString pid) quantityRaw s =
           Inr (Some (items @ [\<lparr>productId = product_id product, quantity = requested\<rparr>]))"
    if no: "\<forall>item \<in> set items. productId item \<noteq> product_id product"
  proof -
    from no have "find (\<lambda>item. productId item = product_id product) items = None"
      by (simp add: find_None_iff)
    with assms show ?thesis by (simp add: addItem_def)
  qed
  show "num_le (Fin 1) requested" using assms(2) by (rule requested_quantity_ge_1)
  show "num_add (Fin a) (Fin b) = to_double (a + b)" by simp
qed

text \<open>A cart of doubles stays a cart of doubles.\<close>

lemma increment_doubles:
  "list_all (\<lambda>item. is_double (quantity item)) items \<Longrightarrow>
   list_all (\<lambda>item. is_double (quantity item)) (increment pid q items)"
  by (induction items) (simp_all add: is_double_num_add)

lemma addItem_doubles:
  assumes "addItem items productIdRaw quantityRaw s = Inr (Some items')"
    and "list_all (\<lambda>item. is_double (quantity item)) items"
  shows "list_all (\<lambda>item. is_double (quantity item)) items'"
  using assms
  by (auto simp: addItem_def increment_doubles requested_quantity_double
      split: form_value.splits option.splits sum.splits)

lemma addItem_examples:
  "addItem [] (FString ''p1'') (FString ''2'') demo_store
     = Inr (Some [\<lparr>productId = ''p1'', quantity = Fin 2\<rparr>])"
  "addItem [\<lparr>productId = ''p1'', quantity = Fin 2\<rparr>] (FString ''p1'') (FString ''3'') demo_store
     = Inr (Some [\<lparr>productId = ''p1'', quantity = Fin 5\<rparr>])"
  "addItem [\<lparr>productId = ''p1'', quantity = Fin 2\<rparr>] (FString ''p2'') (FString ''abc'') demo_store
     = Inr (Some [\<lparr>productId = ''p1'', quantity = Fin 2\<rparr>, \<lparr>productId = ''p2'', quantity = Fin 1\<rparr>])"
  "addItem [\<lparr>productId = ''p1'', quantity = Fin (2 ^ 53)\<rparr>] (FString ''p1'') (FString ''1'') demo_store
     = Inr (Some [\<lparr>productId = ''p1'', quantity = Fin (2 ^ 53)\<rparr>])"
  by (simp_all add: addItem_def demo_products requested_quantity_examples double_eval)

text \<open>
  C6. Every requested quantity is normalised to at least 1, and the item is merged or
  appended: the handler does so for every quantity field whose conversion to a string
  returns (\<open>addItem_returns\<close>), but not for every field it can receive. The body
  \<^verbatim>\<open>productId=p1&quantity[toString]=x\<close> is parsed, by the extended parser the server
  installs (l.531), to a quantity that is an object with a property \<open>toString\<close> of
  its own which is not a function; \<^verbatim>\<open>Number.parseInt\<close> (l.696) converts its argument
  to a string and throws a TypeError on it, outside any \<^verbatim>\<open>try\<close>. At that request,
  for the product \<open>p1\<close> the store holds, \<open>addItem\<close> throws instead of
  returning a cart with one item of quantity 1, and so does the whole handler, which
  sets no cookie; the quantity \<open>abc\<close> and an object without such a property are
  normalised to 1, as the fallback \<^verbatim>\<open>|| 1\<close> means every unreadable quantity to be.
\<close>

theorem addItem_throws:
  "addItem [] (FString ''p1'') (FObject [(''toString'', FString ''x'')]) demo_store = Inl TypeError
   \<and> fst (cart_add throwing demo_store
        \<lparr>form_productId = FString ''p1'',
         form_quantity = FObject [(''toString'', FString ''x'')]\<rparr>
        \<lparr>cart_cookie = None, cartItems_cache = Some []\<rparr>) = Inl TypeError
   \<and> addItem [] (FString ''p1'') (FString ''abc'') demo_store
        = Inr (Some [\<lparr>productId = ''p1'', quantity = Fin 1\<rparr>])
   \<and> addItem [] (FString ''p1'') (FObject [(''a'', FString ''x'')]) demo_store
        = Inr (Some [\<lparr>productId = ''p1'', quantity = Fin 1\<rparr>])"
  by (simp add: addItem_def cart_add_def parseCartItems_def demo_products
      requested_quantity_examples requested_quantity_def parseInt_def is_space_def is_digit_def
      decimal_def)

text \<open>
  C7. A productId under which the store holds no product, or a productId field that
  is not a string, is turned away: \<open>addItem\<close> yields no new list, the handler sets
  no cookie, and the cart read from the request afterwards is the cart read before.
\<close>

theorem addItem_rejects:
  "(getProduct s pid = None \<longrightarrow> addItem items (FString pid) quantityRaw s = Inr None)
   \<and> ((\<forall>p. productIdRaw \<noteq> FString p) \<longrightarrow> addItem items productIdRaw quantityRaw s = Inr None)
   \<and> (addItem (fst (parseCartItems coerce req)) (first_of (form_productId body))
         (first_of (form_quantity body)) s = Inr None \<longrightarrow>
        fst (cart_add coerce s body req) = Inr None
        \<and> fst (parseCartItems coerce (snd (cart_add coerce s body req)))
            = fst (parseCartItems coerce req))"
proof (intro conjI impI)
  show "addItem items (FString pid) quantityRaw s = Inr None" if "getProduct s pid = None"
    using that by (simp add: addItem_def)
  show "addItem items productIdRaw quantityRaw s = Inr None" if "\<forall>p. productIdRaw \<noteq> FString p"
    using that by (cases productIdRaw) (simp_all add: addItem_def)
  assume rejected: "addItem (fst (parseCartItems coerce req)) (first_of (form_productId body))
         (first_of (form_quantity body)) s = Inr None"
  obtain items' req1 where parsed: "parseCartItems coerce req = (items', req1)"
    by (cases "parseCartItems coerce req")
  with rejected have result: "cart_add coerce s body req = (Inr None, req1)"
    by (simp add: cart_add_def)
  from parsed have "fst (parseCartItems coerce req1) = items'"
    by (auto simp: parseCartItems_def Let_def split: option.splits)
  with result parsed show "fst (cart_add coerce s body req) = Inr None"
    and "fst (parseCartItems coerce (snd (cart_add coerce s body req)))
            = fst (parseCartItems coerce req)"
    by simp_all
qed

theorem addItem_rejects_witness:
  "addItem [\<lparr>productId = ''p1'', quantity = Fin 2\<rparr>] (FString ''missing-id'') (FString ''1'') demo_store
     = Inr None
   \<and> addItem [\<lparr>productId = ''p1'', quantity = Fin 2\<rparr>] (FArray [FString ''p1'']) (FString ''1'') demo_store
     = Inr None
   \<and> cart_add throwing demo_store
        \<lparr>form_productId = FString ''missing-id'', form_quantity = FString ''1''\<rparr>
        \<lparr>cart_cookie = Some (writeCartItems [\<lparr>productId = ''p1'', quantity = Fin 2\<rparr>]),
         cartItems_cache = Some [\<lparr>productId = ''p1'', quantity = Fin 2\<rparr>]\<rparr>
      = (Inr None, \<lparr>cart_cookie = Some (writeCartItems [\<lparr>productId = ''p1'', quantity = Fin 2\<rparr>]),
         cartItems_cache = Some [\<lparr>productId = ''p1'', quantity = Fin 2\<rparr>]\<rparr>)"
  using addItem_rejects [of demo_store "''missing-id''" "[\<lparr>productId = ''p1'', quantity = Fin 2\<rparr>]"
      "FString ''1''" "FArray [FString ''p1'']" throwing
      "\<lparr>cart_cookie = Some (writeCartItems [\<lparr>productId = ''p1'', quantity = Fin 2\<rparr>]),
         cartItems_cache = Some [\<lparr>productId = ''p1'', quantity = Fin 2\<rparr>]\<rparr>"
      "\<lparr>form_productId = FString ''missing-id'', form_quantity = FString ''1''\<rparr>"]
  by (simp add: demo_products cart_add_def parseCartItems_def Let_def)

subsection \<open>Pricing the cart\<close>

lemma map_filter_Cons:
  "List.map_filter f (x # xs) = (case f x of None \<Rightarrow> List.map_filter f xs | Some y \<Rightarrow> y # List.map_filter f xs)"
  by (simp add: List.map_filter_def split: option.splits)

lemma cart_lines_Nil: "cart_lines [] s = []"
  by (simp add: cart_lines_def List.map_filter_def)

lemma cart_lines_Cons:
  "cart_lines (item # cartItems) s =
     (case getProduct s (productId item) of
        None \<Rightarrow> cart_lines cartItems s
      | Some product \<Rightarrow>
          \<lparr>line_product = product, line_quantity = quantity item,
           lineTotal =
             num_mul (case product_price product of None \<Rightarrow> NaN | Some price \<Rightarrow> price)
               (quantity item)\<rparr> # cart_lines cartItems s)"
  by (simp add: cart_lines_def map_filter_Cons split: option.splits)

lemma cart_lines_resolved:
  "map (\<lambda>l. (Some (line_product l), line_quantity l)) (cart_lines cartItems s) =
     map (\<lambda>item. (getProduct s (productId item), quantity item))
       (filter (\<lambda>item. getProduct s (productId item) \<noteq> None) cartItems)"
  by (induction cartItems) (auto simp: cart_lines_Nil cart_lines_Cons split: option.splits)

lemma cart_lines_lineTotal:
  "l \<in> set (cart_lines cartItems s) \<Longrightarrow>
     lineTotal l =
       num_mul (case product_price (line_product l) of None \<Rightarrow> NaN | Some price \<Rightarrow> price)
         (line_quantity l)"
  by (induction cartItems) (auto simp: cart_lines_Nil cart_lines_Cons split: option.splits)

lemma foldl_map_lineTotal:
  "foldl (\<lambda>sum item. num_add sum (lineTotal item)) a ls = foldl num_add a (map lineTotal ls)"
  by (induction ls arbitrary: a) auto

lemma num_mul_NaN: "num_mul NaN n = NaN" "num_mul n NaN = NaN"
  by (cases n; simp)+

lemma num_add_NaN: "num_add NaN n = NaN" "num_add n NaN = NaN"
  by (cases n; simp)+

text \<open>Line totals and total are doubles, whatever the prices and quantities are.\<close>

lemma foldl_num_add_double: "is_double a \<Longrightarrow> is_double (foldl num_add a ns)"
  by (induction ns arbitrary: a) (simp_all add: is_double_num_add)

lemma priceCart_doubles:
  "list_all (\<lambda>l. is_double (lineTotal l)) (lines (priceCart cartItems s))"
  "is_double (total (priceCart cartItems s))"
proof -
  show "list_all (\<lambda>l. is_double (lineTotal l)) (lines (priceCart cartItems s))"
    by (simp add: priceCart_def list_all_iff cart_lines_lineTotal is_double_num_mul)
  show "is_double (total (priceCart cartItems s))"
    by (simp add: priceCart_def cart_total_def foldl_map_lineTotal foldl_num_add_double
        is_double_small)
qed

text \<open>
  C9. The lines of the priced cart are, in order, the items whose product the store
  holds, each with the product found and the item's quantity; items whose product is
  gone are dropped and nothing is thrown (\<open>priceCart\<close> returns on every input).
  Every line total is the price of the line's product times the quantity of the line:
  for a finite price and a finite quantity the double nearest to their product, and
  NaN when the price is undefined or NaN or the quantity is NaN. The total is the sum
  of the line totals, added up from 0 in the order of the lines, each sum of two finite
  numbers being the double nearest to their sum; without lines it is 0.
\<close>

theorem priceCart_correct:
  "map (\<lambda>l. (Some (line_product l), line_quantity l)) (lines (priceCart cartItems s)) =
     map (\<lambda>item. (getProduct s (productId item), quantity item))
       (filter (\<lambda>item. getProduct s (productId item) \<noteq> None) cartItems)
   \<and> (\<forall>l \<in> set (lines (priceCart cartItems s)).
        (\<forall>price units. product_price (line_product l) = Some (Fin price) \<and> line_quantity l = Fin units
           \<longrightarrow> lineTotal l = to_double (price * units))
        \<and> (product_price (line_product l) = None \<or> product_price (line_product l) = Some NaN
             \<or> line_quantity l = NaN \<longrightarrow> lineTotal l = NaN)
        \<and> lineTotal l =
            num_mul (case product_price (line_product l) of None \<Rightarrow> NaN | Some price \<Rightarrow> price)
              (line_quantity l))
   \<and> total (priceCart cartItems s) =
       foldl num_add (Fin 0) (map lineTotal (lines (priceCart cartItems s)))
   \<and> (\<forall>a b. num_add (Fin a) (Fin b) = to_double (a + b))
   \<and> (\<forall>n. num_add NaN n = NaN \<and> num_add n NaN = NaN)
   \<and> (lines (priceCart cartItems s) = [] \<longrightarrow> total (priceCart cartItems s) = Fin 0)"
proof -
  have lines: "lines (priceCart cartItems s) = cart_lines cartItems s"
    and total: "total (priceCart cartItems s) = cart_total (cart_lines cartItems s)"
    by (simp_all add: priceCart_def)
  have resolved: "map (\<lambda>l. (Some (line_product l), line_quantity l)) (lines (priceCart cartItems s)) =
     map (\<lambda>item. (getProduct s (productId item), quantity item))
       (filter (\<lambda>item. getProduct s (productId item) \<noteq> None) cartItems)"
    unfolding lines by (rule cart_lines_resolved)
  have each: "(\<forall>price units. product_price (line_product l) = Some (Fin price) \<and> line_quantity l = Fin units
           \<longrightarrow> lineTotal l = to_double (price * units))
        \<and> (product_price (line_product l) = None \<or> product_price (line_product l) = Some NaN
             \<or> line_quantity l = NaN \<longrightarrow> lineTotal l = NaN)
        \<and> lineTotal l =
            num_mul (case product_price (line_product l) of None \<Rightarrow> NaN | Some price \<Rightarrow> price)
              (line_quantity l)"
    if "l \<in> set (lines (priceCart cartItems s))" for l
  proof -
    from that have *: "lineTotal l =
            num_mul (case product_price (line_product l) of None \<Rightarrow> NaN | Some price \<Rightarrow> price)
              (line_quantity l)"
      unfolding lines by (rule cart_lines_lineTotal)
    show ?thesis
      unfolding * by (auto simp: num_mul_NaN)
  qed
  have sum: "total (priceCart cartItems s) =
       foldl num_add (Fin 0) (map lineTotal (lines (priceCart cartItems s)))"
    unfolding lines total by (simp add: cart_total_def foldl_map_lineTotal)
  have empty: "lines (priceCart cartItems s) = [] \<longrightarrow> total (priceCart cartItems s) = Fin 0"
    unfolding sum by simp
  have add: "\<forall>a b. num_add (Fin a) (Fin b) = to_double (a + b)"
    and nan: "\<forall>n. num_add NaN n = NaN \<and> num_add n NaN = NaN"
    by (simp_all add: num_add_NaN)
  from resolved each sum add nan empty show ?thesis by blast
qed

text \<open>
  Carts priced: 2 units at 10.00 make a line total and a total of 20; an item whose
  product is unknown is dropped between two that stay; at the seeded prices 3 units at
  29.99 make the double 89.97 and the total with 249.99 is the double
  339.96000000000004; after the product is removed the cart has no lines and totals 0.
\<close>

lemma seeded_prices:
  "to_double (2999 / 100) = Fin (8441434551552573 / 281474976710656)"
  "to_double (24999 / 100) = Fin (1099467647310889 / 4398046511104)"
  by (simp_all add: double_eval)

lemma seeded_getProduct:
  "getProduct (demo_store\<lparr>products := seeded_products\<rparr>) ''p1''
     = Some (shirt\<lparr>product_price := Some (Fin (8441434551552573 / 281474976710656))\<rparr>)"
  "getProduct (demo_store\<lparr>products := seeded_products\<rparr>) ''p2'' = Some bag"
  "product_price bag = Some (Fin (1099467647310889 / 4398046511104))"
  "product_price shirt = Some (Fin 10)"
  by (simp_all add: getProduct_def Map_get_def seeded_products_def seeded_prices bag_def shirt_def)

lemma getProduct_gone:
  "getProduct demo_store ''gone'' = None"
  "getProduct (removeProduct ''p1'' demo_store) ''p1'' = None"
  by (simp_all add: removeProduct_def getProduct_def Map_delete_def Map_get_def demo_store_def)

lemma pricing_examples:
  "num_mul (Fin 10) (Fin 2) = Fin 20"
  "num_mul (Fin (8441434551552573 / 281474976710656)) (Fin 3) = Fin (3165537956832215 / 35184372088832)"
  "num_mul (Fin (1099467647310889 / 4398046511104)) (Fin 1) = Fin (1099467647310889 / 4398046511104)"
  "num_mul (Fin (1099467647310889 / 4398046511104)) (Fin 3) = Fin (3298402941932667 / 4398046511104)"
  "num_mul (Fin (3602879701896397 / 36028797018963968)) (Fin 3) = Fin (1351079888211149 / 4503599627370496)"
  "num_add (Fin 0) (Fin 20) = Fin 20"
  "num_add (Fin 0) (Fin (3165537956832215 / 35184372088832)) = Fin (3165537956832215 / 35184372088832)"
  "num_add (Fin (3165537956832215 / 35184372088832)) (Fin (1099467647310889 / 4398046511104))
     = Fin (373789972978729 / 1099511627776)"
  "num_add (Fin 20) (Fin (3298402941932667 / 4398046511104)) = Fin (3386363872154747 / 4398046511104)"
  by (simp_all add: double_eval)

lemma priceCart_examples:
  "priceCart [\<lparr>productId = ''p1'', quantity = Fin 2\<rparr>] demo_store =
     \<lparr>lines = [\<lparr>line_product = shirt, line_quantity = Fin 2, lineTotal = Fin 20\<rparr>], total = Fin 20\<rparr>"
  "product_price shirt = Some (Fin 10)"
  "priceCart [\<lparr>productId = ''p1'', quantity = Fin 2\<rparr>, \<lparr>productId = ''gone'', quantity = Fin 1\<rparr>,
        \<lparr>productId = ''p2'', quantity = Fin 3\<rparr>] demo_store =
     \<lparr>lines = [\<lparr>line_product = shirt, line_quantity = Fin 2, lineTotal = Fin 20\<rparr>,
        \<lparr>line_product = bag, line_quantity = Fin 3, lineTotal = Fin (3298402941932667 / 4398046511104)\<rparr>],
      total = Fin (3386363872154747 / 4398046511104)\<rparr>"
  "product_price bag = Some (Fin (1099467647310889 / 4398046511104))"
  "priceCart [\<lparr>productId = ''p1'', quantity = Fin 3\<rparr>, \<lparr>productId = ''p2'', quantity = Fin 1\<rparr>]
        (demo_store\<lparr>products := seeded_products\<rparr>) =
     \<lparr>lines = [\<lparr>line_product = shirt\<lparr>product_price := Some (Fin (8441434551552573 / 281474976710656))\<rparr>,
          line_quantity = Fin 3, lineTotal = Fin (3165537956832215 / 35184372088832)\<rparr>,
        \<lparr>line_product = bag, line_quantity = Fin 1, lineTotal = Fin (1099467647310889 / 4398046511104)\<rparr>],
      total = Fin (373789972978729 / 1099511627776)\<rparr>"
  "priceCart [\<lparr>productId = ''p1'', quantity = Fin 2\<rparr>] (removeProduct ''p1'' demo_store) =
     \<lparr>lines = [], total = Fin 0\<rparr>"
  by (simp_all add: priceCart_def cart_lines_Nil cart_lines_Cons cart_total_def demo_products
      seeded_getProduct getProduct_gone double_eval)

theorem priceCart_correct_witness:
  "priceCart [\<lparr>productId = ''p1'', quantity = Fin 2\<rparr>] demo_store =
     \<lparr>lines = [\<lparr>line_product = shirt, line_quantity = Fin 2, lineTotal = Fin 20\<rparr>], total = Fin 20\<rparr>
   \<and> product_price shirt = Some (Fin 10)
   \<and> priceCart [\<lparr>productId = ''p1'', quantity = Fin 2\<rparr>, \<lparr>productId = ''gone'', quantity = Fin 1\<rparr>,
        \<lparr>productId = ''p2'', quantity = Fin 3\<rparr>] demo_store =
     \<lparr>lines = [\<lparr>line_product = shirt, line_quantity = Fin 2, lineTotal = Fin 20\<rparr>,
        \<lparr>line_product = bag, line_quantity = Fin 3, lineTotal = Fin (3298402941932667 / 4398046511104)\<rparr>],
      total = Fin (3386363872154747 / 4398046511104)\<rparr>
   \<and> product_price bag = Some (Fin (1099467647310889 / 4398046511104))
   \<and> priceCart [\<lparr>productId = ''p1'', quantity = Fin 3\<rparr>, \<lparr>productId = ''p2'', quantity = Fin 1\<rparr>]
        (demo_store\<lparr>products := seeded_products\<rparr>) =
     \<lparr>lines = [\<lparr>line_product = shirt\<lparr>product_price := Some (Fin (8441434551552573 / 281474976710656))\<rparr>,
          line_quantity = Fin 3, lineTotal = Fin (3165537956832215 / 35184372088832)\<rparr>,
        \<lparr>line_product = bag, line_quantity = Fin 1, lineTotal = Fin (1099467647310889 / 4398046511104)\<rparr>],
      total = Fin (373789972978729 / 1099511627776)\<rparr>
   \<and> priceCart [\<lparr>productId = ''p1'', quantity = Fin 2\<rparr>] (removeProduct ''p1'' demo_store) =
     \<lparr>lines = [], total = Fin 0\<rparr>"
  using priceCart_correct [of "[\<lparr>productId = ''p1'', quantity = Fin 2\<rparr>]" demo_store]
    priceCart_correct [of "[\<lparr>productId = ''p1'', quantity = Fin 3\<rparr>, \<lparr>productId = ''p2'', quantity = Fin 1\<rparr>]"
      "demo_store\<lparr>products := seeded_products\<rparr>"]
    priceCart_correct [of "[\<lparr>productId = ''p1'', quantity = Fin 2\<rparr>]" "removeProduct ''p1'' demo_store"]
  by (simp add: priceCart_examples)

section \<open>The cart service and the objects it shares\<close>

lemma map_filter_lookup:
  "list_all (\<lambda>r. r < length objs) refs \<Longrightarrow>
     List.map_filter (lookup objs) refs = map (\<lambda>r. objs ! r) refs"
  by (induction refs) (simp_all add: List.map_filter_def lookup_def)

lemma array_items_cart_array:
  "cart_array h a \<Longrightarrow> lookup (arrays h) a = Some refs \<Longrightarrow>
     array_items h a = map (\<lambda>r. item_objects h ! r) refs"
  by (simp add: cart_array_def array_items_def map_filter_lookup)

lemma find_refs:
  "list_all (\<lambda>r. r < length objs) refs \<Longrightarrow>
   find (\<lambda>item. productId item = pid) (map (\<lambda>r. objs ! r) refs) =
     map_option (\<lambda>r. objs ! r)
       (find (\<lambda>r. case lookup objs r of None \<Rightarrow> False | Some item \<Rightarrow> productId item = pid) refs)"
  by (induction refs) (simp_all add: lookup_def)

lemma increment_refs:
  "distinct refs \<Longrightarrow> list_all (\<lambda>r. r < length objs) refs \<Longrightarrow>
   find (\<lambda>r. case lookup objs r of None \<Rightarrow> False | Some item \<Rightarrow> productId item = pid) refs = Some r0 \<Longrightarrow>
   map (\<lambda>r. objs[r0 := (objs ! r0)\<lparr>quantity := num_add (quantity (objs ! r0)) q\<rparr>] ! r) refs
     = increment pid q (map (\<lambda>r. objs ! r) refs)"
proof (induction refs)
  case Nil
  then show ?case by simp
next
  case (Cons r refs)
  show ?case
  proof (cases "productId (objs ! r) = pid")
    case True
    with Cons.prems have r0: "r0 = r" by (simp add: lookup_def)
    with Cons.prems have "\<forall>x \<in> set refs. x \<noteq> r0" by auto
    then have "map (\<lambda>x. objs[r0 := (objs ! r0)\<lparr>quantity := num_add (quantity (objs ! r0)) q\<rparr>] ! x) refs
        = map (\<lambda>x. objs ! x) refs"
      by (intro map_cong refl) (metis nth_list_update_neq)
    with True r0 Cons.prems show ?thesis by simp
  next
    case False
    with Cons.prems have f: "find (\<lambda>r. case lookup objs r of None \<Rightarrow> False
        | Some item \<Rightarrow> productId item = pid) refs = Some r0"
      by (simp add: lookup_def)
    then have "r0 \<in> set refs" by (metis find_Some_iff nth_mem)
    with Cons.prems have "r \<noteq> r0" by auto
    with False Cons.IH [OF _ _ f] Cons.prems show ?thesis by simp
  qed
qed

lemma filter_map_filter_lookup:
  "list_all (\<lambda>r. r < length objs) refs \<Longrightarrow>
   List.map_filter (lookup objs)
     (filter (\<lambda>r. case lookup objs r of None \<Rightarrow> False | Some item \<Rightarrow> P item) refs)
   = filter P (map (\<lambda>r. objs ! r) refs)"
  by (induction refs) (simp_all add: map_filter_simps lookup_def)

lemma list_update_append_last: "(xs @ [x])[length xs := y] = xs @ [y]"
  by (induction xs) simp_all

lemma array_items_append:
  "arrays h' = as @ [refs] @ bs \<Longrightarrow> list_all (\<lambda>r. r < length (item_objects h')) refs \<Longrightarrow>
   array_items h' (length as) = map (\<lambda>r. item_objects h' ! r) refs"
  by (simp add: array_items_def lookup_def map_filter_lookup nth_append)

text \<open>
  The handler on the heap computes what \<open>addItem\<close> computes on lists: the array it
  stores in the request denotes the list \<open>addItem\<close> returns, and the cookie is that
  list written by \<open>writeCartItems\<close>.
\<close>

lemma addItem_heap_refines:
  assumes wf: "cart_array h cached"
  shows "case addItem (array_items h cached) productIdRaw quantityRaw s of
           Inl e \<Rightarrow> fst (addItem_heap h cached productIdRaw quantityRaw s) = Inl e
         | Inr None \<Rightarrow> fst (addItem_heap h cached productIdRaw quantityRaw s) = Inr None
         | Inr (Some items') \<Rightarrow>
             fst (addItem_heap h cached productIdRaw quantityRaw s)
               = Inr (Some (length (arrays h), writeCartItems items'))
             \<and> array_items (snd (addItem_heap h cached productIdRaw quantityRaw s))
                 (length (arrays h)) = items'"
proof -
  from wf obtain refs where refs: "lookup (arrays h) cached = Some refs"
    and dist: "distinct refs" and valid: "list_all (\<lambda>r. r < length (item_objects h)) refs"
    by (auto simp: cart_array_def split: option.splits)
  let ?objs = "item_objects h"
  have items: "array_items h cached = map (\<lambda>r. ?objs ! r) refs"
    using wf refs by (rule array_items_cart_array)
  show ?thesis
  proof (cases "\<exists>pid product. productIdRaw = FString pid \<and> getProduct s pid = Some product")
    case False
    then show ?thesis
      by (auto simp: addItem_def addItem_heap_def Let_def split: form_value.splits option.splits)
  next
    case True
    then obtain pid product where p: "productIdRaw = FString pid" "getProduct s pid = Some product"
      by blast
    show ?thesis
    proof (cases "requested_quantity quantityRaw")
      case (Inl e)
      with p show ?thesis by (simp add: addItem_def addItem_heap_def Let_def)
    next
      case q: (Inr requested)
    let ?q = requested
    let ?P = "\<lambda>r. case lookup ?objs r of None \<Rightarrow> False
                  | Some item \<Rightarrow> productId item = product_id product"
    have finish: ?thesis
      if pure: "addItem (array_items h cached) productIdRaw quantityRaw s
                  = Inr (Some (map (\<lambda>r. objs' ! r) refs'))"
        and valid': "list_all (\<lambda>r. r < length objs') refs'"
        and run: "addItem_heap h cached productIdRaw quantityRaw s =
          (Inr (Some (length (arrays h), JSON_stringify (array_items h3 (Suc (length (arrays h)))))), h3)"
        and h3: "item_objects h3 = objs'"
          "arrays h3 = arrays h @ [refs'] @ [filter (\<lambda>r. case lookup objs' r of None \<Rightarrow> False
                        | Some item \<Rightarrow> positive item) refs']"
      for objs' refs' h3
    proof -
      let ?sanitized = "filter (\<lambda>r. case lookup objs' r of None \<Rightarrow> False
                        | Some item \<Rightarrow> positive item) refs'"
      have valid_s: "list_all (\<lambda>r. r < length objs') ?sanitized"
        using valid' by (simp add: list_all_iff)
      have "arrays h3 = (arrays h @ [refs']) @ [?sanitized] @ []" by (simp add: h3)
      from array_items_append [OF this] valid_s h3(1)
      have "array_items h3 (Suc (length (arrays h))) = map (\<lambda>r. objs' ! r) ?sanitized"
        by simp
      also have "\<dots> = List.map_filter (lookup objs') ?sanitized"
        using valid_s by (simp add: map_filter_lookup)
      also have "\<dots> = filter positive (map (\<lambda>r. objs' ! r) refs')"
        using valid' by (rule filter_map_filter_lookup)
      finally have c: "array_items h3 (Suc (length (arrays h)))
          = filter positive (map (\<lambda>r. objs' ! r) refs')" .
      from array_items_append [OF h3(2)] valid' h3(1)
      have a: "array_items h3 (length (arrays h)) = map (\<lambda>r. objs' ! r) refs'" by simp
      show ?thesis
        unfolding pure run using c a by (simp add: writeCartItems_def)
    qed
    show ?thesis
    proof (cases "find ?P refs")
      case None
      let ?new = "\<lparr>productId = product_id product, quantity = ?q\<rparr>"
      let ?objs' = "?objs @ [?new]"
      let ?refs' = "refs @ [length ?objs]"
      have m: "map (\<lambda>r. ?objs' ! r) ?refs' = map (\<lambda>r. ?objs ! r) refs @ [?new]"
        using valid by (simp add: list_all_iff nth_append)
      have pure: "addItem (array_items h cached) productIdRaw quantityRaw s
          = Inr (Some (map (\<lambda>r. ?objs' ! r) ?refs'))"
        unfolding m using p q None by (simp add: addItem_def items find_refs [OF valid] Let_def)
      have valid': "list_all (\<lambda>r. r < length ?objs') ?refs'"
        using valid by (simp add: list_all_iff less_SucI)
      define h3 where "h3 = h\<lparr>item_objects := ?objs',
          arrays := arrays h @ [?refs'] @ [filter (\<lambda>r. case lookup ?objs' r of None \<Rightarrow> False
                        | Some item \<Rightarrow> positive item) ?refs']\<rparr>"
      have run: "addItem_heap h cached productIdRaw quantityRaw s =
          (Inr (Some (length (arrays h), JSON_stringify (array_items h3 (Suc (length (arrays h)))))), h3)"
        unfolding h3_def using p q None refs
        by (simp add: addItem_heap_def Let_def list_update_append_last)
      show ?thesis
        by (rule finish [OF pure valid' run]) (simp_all add: h3_def)
    next
      case (Some r0)
      let ?objs' = "?objs[r0 := (?objs ! r0)\<lparr>quantity := num_add (quantity (?objs ! r0)) ?q\<rparr>]"
      have inc: "map (\<lambda>r. ?objs' ! r) refs = increment (product_id product) ?q (map (\<lambda>r. ?objs ! r) refs)"
        using dist valid Some by (rule increment_refs)
      have pure: "addItem (array_items h cached) productIdRaw quantityRaw s
          = Inr (Some (map (\<lambda>r. ?objs' ! r) refs))"
        using p q Some by (simp add: addItem_def items find_refs [OF valid] Let_def inc)
      have valid': "list_all (\<lambda>r. r < length ?objs') refs"
        using valid by simp
      define h3 where "h3 = h\<lparr>item_objects := ?objs',
          arrays := arrays h @ [refs] @ [filter (\<lambda>r. case lookup ?objs' r of None \<Rightarrow> False
                        | Some item \<Rightarrow> positive item) refs]\<rparr>"
      have run: "addItem_heap h cached productIdRaw quantityRaw s =
          (Inr (Some (length (arrays h), JSON_stringify (array_items h3 (Suc (length (arrays h)))))), h3)"
        unfolding h3_def using p q Some refs
        by (simp add: addItem_heap_def Let_def)
      show ?thesis
        by (rule finish [OF pure valid' run]) (simp_all add: h3_def)
    qed
    qed
  qed
qed

lemma lookup_append: "i < length xs \<Longrightarrow> lookup (xs @ ys) i = lookup xs i"
  by (simp add: lookup_def nth_append)

text \<open>
  What the call leaves of its input: the cached array keeps its elements, and the
  cart it denotes is unchanged when the product was not in it, but is the incremented
  cart when it was.
\<close>

lemma addItem_heap_input:
  assumes wf: "cart_array h cached"
    and p: "productIdRaw = FString pid" "getProduct s pid = Some product"
    and q: "requested_quantity quantityRaw = Inr requested"
  shows "lookup (arrays (snd (addItem_heap h cached productIdRaw quantityRaw s))) cached
           = lookup (arrays h) cached
         \<and> array_items (snd (addItem_heap h cached productIdRaw quantityRaw s)) cached =
           (case find (\<lambda>item. productId item = product_id product) (array_items h cached) of
              None \<Rightarrow> array_items h cached
            | Some existingItem \<Rightarrow>
                increment (product_id product) requested (array_items h cached))"
proof -
  from wf obtain refs where refs: "lookup (arrays h) cached = Some refs"
    and dist: "distinct refs" and valid: "list_all (\<lambda>r. r < length (item_objects h)) refs"
    by (auto simp: cart_array_def split: option.splits)
  from refs have c: "cached < length (arrays h)" by (simp add: lookup_def split: if_splits)
  let ?objs = "item_objects h"
  let ?q = requested
  have items: "array_items h cached = map (\<lambda>r. ?objs ! r) refs"
    using wf refs by (rule array_items_cart_array)
  let ?P = "\<lambda>r. case lookup ?objs r of None \<Rightarrow> False
                | Some item \<Rightarrow> productId item = product_id product"
  let ?h' = "snd (addItem_heap h cached productIdRaw quantityRaw s)"
  show ?thesis
  proof (cases "find ?P refs")
    case None
    let ?objs' = "?objs @ [\<lparr>productId = product_id product, quantity = ?q\<rparr>]"
    have o: "item_objects ?h' = ?objs'"
      using p q None refs by (simp add: addItem_heap_def Let_def)
    have "\<exists>bs. arrays ?h' = arrays h @ bs"
      using p q None refs by (simp add: addItem_heap_def Let_def list_update_append_last)
    then have kept: "lookup (arrays ?h') cached = Some refs"
      using c refs by (auto simp: lookup_append)
    have "map (\<lambda>r. ?objs' ! r) refs = map (\<lambda>r. ?objs ! r) refs"
      using valid by (simp add: list_all_iff nth_append)
    moreover have "list_all (\<lambda>r. r < length ?objs') refs"
      using valid by (simp add: list_all_iff less_SucI)
    ultimately have "array_items ?h' cached = map (\<lambda>r. ?objs ! r) refs"
      using kept o by (simp add: array_items_def map_filter_lookup)
    with None kept refs show ?thesis by (simp add: items find_refs [OF valid])
  next
    case (Some r0)
    let ?objs' = "?objs[r0 := (?objs ! r0)\<lparr>quantity := num_add (quantity (?objs ! r0)) ?q\<rparr>]"
    have o: "item_objects ?h' = ?objs'"
      using p q Some refs by (simp add: addItem_heap_def Let_def)
    have "\<exists>bs. arrays ?h' = arrays h @ bs"
      using p q Some refs by (simp add: addItem_heap_def Let_def)
    then have kept: "lookup (arrays ?h') cached = Some refs"
      using c refs by (auto simp: lookup_append)
    have "list_all (\<lambda>r. r < length ?objs') refs" using valid by simp
    then have "array_items ?h' cached = map (\<lambda>r. ?objs' ! r) refs"
      using kept o by (simp add: array_items_def map_filter_lookup)
    also have "\<dots> = increment (product_id product) ?q (map (\<lambda>r. ?objs ! r) refs)"
      using dist valid Some by (rule increment_refs)
    finally show ?thesis using Some kept refs by (simp add: items find_refs [OF valid])
  qed
qed

text \<open>A call that throws has only copied the array: the input cart is as it was.\<close>

lemma addItem_heap_throws:
  "productIdRaw = FString pid \<Longrightarrow> getProduct s pid = Some product \<Longrightarrow>
   requested_quantity quantityRaw = Inl e \<Longrightarrow>
   array_items (snd (addItem_heap h cached productIdRaw quantityRaw s)) cached = array_items h cached"
  by (auto simp: addItem_heap_def Let_def array_items_def lookup_def nth_append)

text \<open>
  C8 at a concrete input. The cart \<open>[{p1, 2}]\<close> is array \<open>0\<close> of the heap; adding
  3 of \<open>p1\<close> returns the new array \<open>1\<close>, which denotes \<open>[{p1, 5}]\<close>, and
  afterwards the input array \<open>0\<close> denotes \<open>[{p1, 5}]\<close> as well: the copy is
  shallow, and the item object of the input list has been assigned to.
\<close>

theorem addItem_mutates_input:
  "array_items demo_heap 0 = [\<lparr>productId = ''p1'', quantity = Fin 2\<rparr>]
   \<and> fst (addItem_heap demo_heap 0 (FString ''p1'') (FString ''3'') demo_store)
       = Inr (Some (1, JSON_stringify [\<lparr>productId = ''p1'', quantity = Fin 5\<rparr>]))
   \<and> array_items (snd (addItem_heap demo_heap 0 (FString ''p1'') (FString ''3'') demo_store)) 1
       = [\<lparr>productId = ''p1'', quantity = Fin 5\<rparr>]
   \<and> array_items (snd (addItem_heap demo_heap 0 (FString ''p1'') (FString ''3'') demo_store)) 0
       = [\<lparr>productId = ''p1'', quantity = Fin 5\<rparr>]"
  by (simp add: addItem_heap_def demo_heap_def array_items_def lookup_def Let_def
      demo_products requested_quantity_examples List.map_filter_def positive_def
      to_double_def quantum_def binade.simps round_half_even_def)

end
